theory Spec2Isabelle
  imports Main "HOL-Library.Sublist"
begin

section \<open>Python strings\<close>

text \<open>
  Strings are byte strings (\<open>char list\<close>). \<open>str.lower\<close> is modelled on the ASCII letters,
  the only ones the keyword tables of the program contain.
\<close>

definition lower_char :: "char \<Rightarrow> char" where
  "lower_char c =
     (case map_of (zip ''ABCDEFGHIJKLMNOPQRSTUVWXYZ'' ''abcdefghijklmnopqrstuvwxyz'') c of
        Some l \<Rightarrow> l
      | None \<Rightarrow> c)"

definition lower :: "string \<Rightarrow> string" where
  "lower s = map lower_char s"

text \<open>\<open>sub in s\<close> on strings is the substring test.\<close>

definition py_in :: "string \<Rightarrow> string \<Rightarrow> bool" where
  "py_in sub s = sublist sub s"

definition endswith :: "string \<Rightarrow> string \<Rightarrow> bool" where
  "endswith s suf = suffix suf s"

text \<open>\<open>s.split(sep)\<close> for a one-character separator: the empty string splits into one empty field.\<close>

fun split_char :: "char \<Rightarrow> string \<Rightarrow> string list" where
  "split_char sep [] = [[]]"
| "split_char sep (c # cs) =
     (if c = sep then [] # split_char sep cs
      else (case split_char sep cs of
              [] \<Rightarrow> [[c]]
            | l # ls \<Rightarrow> (c # l) # ls))"

definition split_nl :: "string \<Rightarrow> string list" where
  "split_nl s = split_char (CHR ''\<newline>'') s"

text \<open>\<open>sep.join(xs)\<close>.\<close>

fun join :: "string \<Rightarrow> string list \<Rightarrow> string" where
  "join sep [] = []"
| "join sep [x] = x"
| "join sep (x # y # ys) = x @ sep @ join sep (y # ys)"

text \<open>\<open>str(n)\<close> for a non-negative integer such as \<open>len(xs)\<close>.\<close>

definition digit_char :: "nat \<Rightarrow> char" where
  "digit_char d = ''0123456789'' ! d"

fun str_nat :: "nat \<Rightarrow> string" where
  "str_nat n = (if n < 10 then [digit_char n] else str_nat (n div 10) @ [digit_char (n mod 10)])"

declare str_nat.simps [simp del]

text \<open>
  \<open>s.strip()\<close> removes leading and trailing white space; on ASCII these are the
  characters 9 to 13, 28 to 31 and the blank.
\<close>

definition isspace :: "char \<Rightarrow> bool" where
  "isspace c = (of_char c \<in> {9, 10, 11, 12, 13, 28, 29, 30, 31, 32 :: nat})"

definition strip :: "string \<Rightarrow> string" where
  "strip s = rev (dropWhile isspace (rev (dropWhile isspace s)))"

text \<open>\<open>d.get(key, default)\<close> on a dictionary whose key may be absent.\<close>

definition dict_get :: "'a option \<Rightarrow> 'a \<Rightarrow> 'a" where
  "dict_get v dflt = (case v of None \<Rightarrow> dflt | Some x \<Rightarrow> x)"

text \<open>
  A Python \<open>set\<close> of strings is kept as a duplicate-free list in order of first insertion;
  \<open>set_add\<close> is \<open>s.add(x)\<close>.
\<close>

definition set_add :: "'a \<Rightarrow> 'a list \<Rightarrow> 'a list" where
  "set_add x xs = (if x \<in> set xs then xs else xs @ [x])"


section \<open>Documents\<close>

text \<open>
  A retrieved document is a dictionary; the program reads the keys \<open>filename\<close>,
  \<open>text\<close>, \<open>experiment_name\<close> and \<open>experiment_params\<close>, each with a default
  for a missing key.
\<close>

record document =
  doc_filename :: "string option"
  doc_text :: "string option"
  doc_experiment_name :: "string option"
  doc_experiment_params :: "string option"


section \<open>The context aggregation loop of \<open>generate_response\<close>\<close>

text \<open>The excerpt length chosen from \<open>len(context_docs)\<close>.\<close>

definition text_length :: "nat \<Rightarrow> nat" where
  "text_length n = (if n > 50 then 400 else if n > 20 then 600 else 1000)"

text \<open>\<open>'\n'.join(lines[:5] + ['...'] + lines[-3:])\<close>\<close>

definition csv_excerpt :: "string list \<Rightarrow> string" where
  "csv_excerpt lines =
     join ''\<newline>'' (take 5 lines @ [''...''] @ drop (length lines - 3) lines)"

text \<open>The excerpt of a document that carries an experiment name; \<open>n\<close> is the pool size.\<close>

definition excerpt :: "nat \<Rightarrow> string \<Rightarrow> string \<Rightarrow> string" where
  "excerpt n filename txt =
     (if endswith filename ''.csv'' \<and> py_in ''\<newline>'' txt
      then (let lines = split_nl txt
            in if length lines > 10 then csv_excerpt lines else take (text_length n) txt)
      else take (text_length n) txt)"

definition multi_label :: "string \<Rightarrow> string \<Rightarrow> string \<Rightarrow> string" where
  "multi_label experiment_name filename experiment_params =
     ''From '' @ experiment_name @ '' - '' @ filename @ '' (Parameters: '' @ experiment_params
       @ ''):\<newline>''"

definition single_label :: "string \<Rightarrow> string" where
  "single_label filename = ''From '' @ filename @ '':\<newline>''"

record agg_state =
  contexts :: "string list"
  filenames :: "string list"
  experiments_found :: "string list"

definition agg_init :: agg_state where
  "agg_init = \<lparr>contexts = [], filenames = [], experiments_found = []\<rparr>"

text \<open>One iteration of \<open>for doc in context_docs\<close>; \<open>n\<close> is \<open>len(context_docs)\<close>.\<close>

definition aggregate_step :: "nat \<Rightarrow> agg_state \<Rightarrow> document \<Rightarrow> agg_state" where
  "aggregate_step n st doc =
     (let filename = dict_get (doc_filename doc) ''unknown file'';
          txt = dict_get (doc_text doc) '''';
          experiment_name = dict_get (doc_experiment_name doc) '''';
          experiment_params = dict_get (doc_experiment_params doc) ''''
      in if txt \<noteq> []
         then (if experiment_name \<noteq> []
               then st\<lparr>contexts := contexts st @
                          [multi_label experiment_name filename experiment_params
                             @ excerpt n filename txt @ ''...''],
                        filenames := filenames st @ [filename],
                        experiments_found := set_add experiment_name (experiments_found st)\<rparr>
               else st\<lparr>contexts := contexts st @
                          [single_label filename @ take 1000 txt @ ''...''],
                        filenames := filenames st @ [filename]\<rparr>)
         else st)"

definition aggregate :: "document list \<Rightarrow> agg_state" where
  "aggregate context_docs = foldl (aggregate_step (length context_docs)) agg_init context_docs"

text \<open>\<open>is_multi_experiment = len(experiments_found) > 1\<close> in \<open>generate_response\<close>.\<close>

definition is_multi_experiment :: "document list \<Rightarrow> bool" where
  "is_multi_experiment context_docs = (length (experiments_found (aggregate context_docs)) > 1)"

text \<open>The same flag as \<open>fallback_parser\<close> computes it, from every document of the pool.\<close>

definition fallback_experiments_found :: "document list \<Rightarrow> string list" where
  "fallback_experiments_found context_docs =
     foldl (\<lambda>found doc.
              let experiment_name = dict_get (doc_experiment_name doc) ''''
              in if experiment_name \<noteq> [] then set_add experiment_name found else found)
       [] context_docs"

definition fallback_is_multi_experiment :: "document list \<Rightarrow> bool" where
  "fallback_is_multi_experiment context_docs =
     (length (fallback_experiments_found context_docs) > 1)"

text \<open>
  The distinct \<open>experiment_name\<close> values of a pool, the empty string counting as absent
  (the right-hand side of the invariant of the context bundle, in the specification's words).
\<close>

definition experiment_names :: "document list \<Rightarrow> string set" where
  "experiment_names context_docs =
     set (filter (\<lambda>e. e \<noteq> []) (map (\<lambda>d. dict_get (doc_experiment_name d) '''') context_docs))"


section \<open>Exceptions, external collaborators and effects\<close>

text \<open>An exception is kept as its message \<open>str(e)\<close>.\<close>

datatype exn = Exception string

fun str_exn :: "exn \<Rightarrow> string" where
  "str_exn (Exception msg) = msg"

text \<open>
  Everything the module reaches outside itself is a field of the environment: the retrieval
  functions, the bandwidth analysis, the reasoning helper, the two generation services,
  pandas, Python floats (an abstract type \<open>'f\<close>) and the iteration order of a string set.
  A call that raises returns \<open>Inl\<close>.
\<close>

record 'f env =
  FRAMEWORK_CONTEXT :: string
  USE_LOCAL_MODEL :: "string option"
  analyze_bandwidth_for_chat :: "string \<Rightarrow> string \<Rightarrow> exn + string"
  get_all_multi_experiment_documents :: "exn + document list"
  get_all_single_experiment_documents :: "exn + document list"
  think_step_by_step :: "string \<Rightarrow> string \<Rightarrow> exn + (string \<times> string)"
  ollama_response :: "string \<Rightarrow> exn + string"
  text_generation :: "string \<Rightarrow> exn + string"
  pandas_nunique_first_column :: "string \<Rightarrow> exn + nat"
  pandas_mean_last_column_2f :: "string \<Rightarrow> exn + string"
  float_of_str :: "string \<Rightarrow> exn + 'f"
  float_gt_zero :: "'f \<Rightarrow> bool"
  float_sum :: "'f list \<Rightarrow> 'f"
  float_div_len :: "'f \<Rightarrow> nat \<Rightarrow> 'f"
  format_2f :: "'f \<Rightarrow> string"
  set_iteration_order :: "string list \<Rightarrow> string list"

text \<open>The calls a run makes to its collaborators, in order.\<close>

datatype call =
    AnalyzeBandwidth string string
  | GetMultiDocs
  | GetSingleDocs
  | ThinkStepByStep string string
  | OllamaGenerate string
  | TextGeneration string

fun is_backend_call :: "call \<Rightarrow> bool" where
  "is_backend_call (ThinkStepByStep q c) = True"
| "is_backend_call (OllamaGenerate p) = True"
| "is_backend_call (TextGeneration p) = True"
| "is_backend_call (AnalyzeBandwidth d q) = False"
| "is_backend_call GetMultiDocs = False"
| "is_backend_call GetSingleDocs = False"


section \<open>\<open>fallback_parser\<close>\<close>

text \<open>
  The node-count handler, for one document: \<open>Some\<close> answer is a \<open>return\<close>, \<open>None\<close>
  goes on with the loop. \<open>pandas_nunique_first_column text\<close> stands for
  \<open>pd.read_csv(io.StringIO(text), header=None)[0].nunique()\<close>.
\<close>

definition node_count_doc :: "'f env \<Rightarrow> document \<Rightarrow> string option" where
  "node_count_doc E doc =
     (if doc_filename doc = Some ''node_info.csv''
      then (let txt = dict_get (doc_text doc) ''''
            in if txt \<noteq> []
               then (case pandas_nunique_first_column E txt of
                       Inr node_count \<Rightarrow>
                         Some (''Based on the node_info.csv file, there are '' @ str_nat node_count
                               @ '' unique nodes in the simulation.'')
                     | Inl e \<Rightarrow>
                         (let lines = split_nl (strip txt)
                          in Some (''Based on the node_info.csv file, there appear to be approximately ''
                                   @ str_nat (length lines) @ '' nodes in the simulation.'')))
               else None)
      else None)"

text \<open>A \<open>for\<close> loop whose body may \<open>return\<close>.\<close>

fun first_return :: "('a \<Rightarrow> 'b option) \<Rightarrow> 'a list \<Rightarrow> 'b option" where
  "first_return f [] = None"
| "first_return f (x # xs) = (case f x of Some r \<Rightarrow> Some r | None \<Rightarrow> first_return f xs)"

text \<open>\<open>re.findall(r'[\d.]+', text)\<close>: the maximal runs of digits and dots.\<close>

definition is_num_char :: "char \<Rightarrow> bool" where
  "is_num_char c = (c \<in> set ''0123456789.'')"

fun findall_runs :: "string \<Rightarrow> string \<Rightarrow> string list" where
  "findall_runs cur [] = (if cur = [] then [] else [cur])"
| "findall_runs cur (c # cs) =
     (if is_num_char c then findall_runs (cur @ [c]) cs
      else if cur = [] then findall_runs [] cs
      else cur # findall_runs [] cs)"

definition findall_numbers :: "string \<Rightarrow> string list" where
  "findall_numbers txt = findall_runs [] txt"

text \<open>\<open>[float(num) for num in numbers if float(num) > 0]\<close>; \<open>float\<close> may raise.\<close>

fun positive_values :: "'f env \<Rightarrow> string list \<Rightarrow> exn + 'f list" where
  "positive_values E [] = Inr []"
| "positive_values E (num # nums) =
     (case float_of_str E num of
        Inl e \<Rightarrow> Inl e
      | Inr x \<Rightarrow>
          (case positive_values E nums of
             Inl e \<Rightarrow> Inl e
           | Inr xs \<Rightarrow> Inr (if float_gt_zero E x then x # xs else xs)))"

definition bandwidth_answer :: "string option \<Rightarrow> string \<Rightarrow> string" where
  "bandwidth_answer filename avg =
     ''Based on '' @ dict_get filename ''None'' @ '', the average bandwidth is approximately ''
       @ avg @ ''.''"

text \<open>
  The average-bandwidth handler, for one document. \<open>pandas_mean_last_column_2f text\<close>
  stands for the mean of the last column of the parsed frame, coerced to numbers, formatted
  with \<open>:.2f\<close>; it is \<open>Inl\<close> when any of these steps raises.
\<close>

definition bandwidth_doc :: "'f env \<Rightarrow> document \<Rightarrow> string option" where
  "bandwidth_doc E doc =
     (if py_in ''bandwidth'' (lower (dict_get (doc_filename doc) ''''))
      then (let txt = dict_get (doc_text doc) ''''
            in if txt \<noteq> []
               then (case pandas_mean_last_column_2f E txt of
                       Inr avg_bandwidth \<Rightarrow> Some (bandwidth_answer (doc_filename doc) avg_bandwidth)
                     | Inl e \<Rightarrow>
                         (let numbers = findall_numbers txt
                          in if numbers \<noteq> []
                             then (case positive_values E numbers of
                                     Inr vals \<Rightarrow>
                                       if vals \<noteq> []
                                       then (let avg = float_div_len E (float_sum E vals) (length vals)
                                             in Some (bandwidth_answer (doc_filename doc)
                                                        (format_2f E avg)))
                                       else None
                                   | Inl e' \<Rightarrow> None)
                             else None))
               else None)
      else None)"

text \<open>
  \<open>experiment_files\<close>: a dictionary from experiment name to the list of its file names,
  in insertion order.
\<close>

fun group_append :: "(string \<times> string list) list \<Rightarrow> string \<Rightarrow> string \<Rightarrow> (string \<times> string list) list" where
  "group_append [] k v = [(k, [v])]"
| "group_append ((k', vs) # rest) k v =
     (if k' = k then (k', vs @ [v]) # rest else (k', vs) # group_append rest k v)"

definition experiment_files :: "document list \<Rightarrow> (string \<times> string list) list" where
  "experiment_files context_docs =
     foldl (\<lambda>m doc. group_append m (dict_get (doc_experiment_name doc) ''Unknown'')
                       (dict_get (doc_filename doc) ''unknown''))
       [] context_docs"

definition general_fallback :: "'f env \<Rightarrow> document list \<Rightarrow> string" where
  "general_fallback E context_docs =
     (let experiments_found = fallback_experiments_found context_docs
      in if length experiments_found > 1
         then (let summary = map (\<lambda>(exp_name, files). exp_name @ '': '' @ join '', '' files)
                               (experiment_files context_docs)
               in ''I found relevant information from '' @ str_nat (length experiments_found)
                  @ '' experiments ('' @ join '', '' (set_iteration_order E experiments_found)
                  @ '') in the following files:\<newline>'' @ join ''\<newline>'' summary
                  @ ''\<newline>\<newline>However, I couldn't process the comparative analysis automatically. The API service is currently unavailable.'')
         else (let filenames = map (\<lambda>doc. dict_get (doc_filename doc) ''unknown'') context_docs
               in ''I found relevant information in '' @ join '', '' filenames
                  @ '', but couldn't process it automatically. The API service is currently unavailable.''))"

definition node_intent :: "string \<Rightarrow> bool" where
  "node_intent query_lower =
     (py_in ''node'' query_lower \<and> (py_in ''count'' query_lower \<or> py_in ''how many'' query_lower))"

definition bandwidth_intent :: "string \<Rightarrow> bool" where
  "bandwidth_intent query_lower =
     (py_in ''bandwidth'' query_lower \<and> py_in ''average'' query_lower)"

definition fallback_parser :: "'f env \<Rightarrow> string \<Rightarrow> document list \<Rightarrow> string" where
  "fallback_parser E query context_docs =
     (let query_lower = lower query;
          specialised =
            (if node_intent query_lower then first_return (node_count_doc E) context_docs
             else if bandwidth_intent query_lower then first_return (bandwidth_doc E) context_docs
             else None)
      in case specialised of
           Some answer \<Rightarrow> answer
         | None \<Rightarrow> general_fallback E context_docs)"


section \<open>The generation wrappers\<close>

text \<open>
  \<open>generate_with_ollama\<close>: \<open>ollama_response prompt\<close> stands for the HTTP request and the
  \<open>response\<close> field of its JSON answer; every exception is caught.
\<close>

definition generate_with_ollama :: "'f env \<Rightarrow> string \<Rightarrow> string" where
  "generate_with_ollama E prompt =
     (case ollama_response E prompt of
        Inr result \<Rightarrow> strip result
      | Inl e \<Rightarrow> ''There was an error calling the local model through Ollama.'')"

text \<open>
  \<open>generate_with_api\<close>: \<open>text_generation prompt\<close> stands for building the client and
  calling \<open>client.text_generation\<close>; every exception is caught.
\<close>

definition generate_with_api :: "'f env \<Rightarrow> string \<Rightarrow> document list \<Rightarrow> string \<Rightarrow> string" where
  "generate_with_api E prompt context_docs query =
     (case text_generation E prompt of
        Inr response \<Rightarrow>
          (let answer = (if length response > length prompt
                         then drop (length prompt) response else response)
           in strip answer)
      | Inl e \<Rightarrow>
          if context_docs \<noteq> [] \<and> query \<noteq> [] then fallback_parser E query context_docs
          else ''I'm sorry, I couldn't access the language model service. Please try again later.'')"


section \<open>Prompt construction\<close>

text \<open>
  \<open>files_by_experiment\<close> and \<open>params_by_experiment\<close>: for each experiment name, in
  insertion order, the set of its file names and the parameters seen first.
\<close>

fun summary_add :: "(string \<times> string \<times> string list) list \<Rightarrow> string \<Rightarrow> string \<Rightarrow> string
    \<Rightarrow> (string \<times> string \<times> string list) list" where
  "summary_add [] exp_name params filename = [(exp_name, params, [filename])]"
| "summary_add ((k, p, files) # rest) exp_name params filename =
     (if k = exp_name then (k, p, set_add filename files) # rest
      else (k, p, files) # summary_add rest exp_name params filename)"

definition files_by_experiment :: "document list \<Rightarrow> (string \<times> string \<times> string list) list" where
  "files_by_experiment context_docs =
     foldl (\<lambda>m doc. summary_add m (dict_get (doc_experiment_name doc) ''Unknown'')
                       (dict_get (doc_experiment_params doc) '''')
                       (dict_get (doc_filename doc) ''unknown''))
       [] context_docs"

text \<open>\<open>sorted(files)\<close>: insertion sort under the lexicographic order of the characters' codes.\<close>

fun str_le :: "string \<Rightarrow> string \<Rightarrow> bool" where
  "str_le [] ys = True"
| "str_le (x # xs) [] = False"
| "str_le (x # xs) (y # ys) =
     ((of_char x :: nat) < of_char y \<or> (x = y \<and> str_le xs ys))"

fun sorted_insert :: "string \<Rightarrow> string list \<Rightarrow> string list" where
  "sorted_insert x [] = [x]"
| "sorted_insert x (y # ys) = (if str_le x y then x # y # ys else y # sorted_insert x ys)"

definition sorted_strs :: "string list \<Rightarrow> string list" where
  "sorted_strs xs = foldr sorted_insert xs []"

definition experiment_summary :: "document list \<Rightarrow> string list" where
  "experiment_summary context_docs =
     map (\<lambda>(exp_name, params, files).
            ''**'' @ exp_name @ ''** (Parameters: '' @ params @ ''): '' @ str_nat (length files)
              @ '' files - '' @ join '', '' (sorted_strs files))
       (files_by_experiment context_docs)"

definition multi_prompt :: "'f env \<Rightarrow> string \<Rightarrow> document list \<Rightarrow> string list \<Rightarrow> string \<Rightarrow> string" where
  \<open>multi_prompt E query context_docs found context_string =
     ''You are an AI assistant performing COMPREHENSIVE COMPARATIVE ANALYSIS across multiple network simulation experiments.\<newline>''
     @ ''\<newline>''
     @ ''IMPORTANT: You have access to ALL simulation data from ALL selected experiments. Use this complete dataset to provide thorough comparative analysis.\<newline>''
     @ ''\<newline>''
     @ ''**ANALYSIS SCOPE:**\<newline>''
     @ ''- '' @ str_nat (length found) @ '' different experiments: ''
       @ join '', '' (set_iteration_order E found) @ ''\<newline>''
     @ ''- '' @ str_nat (length context_docs) @ '' total data files analyzed\<newline>''
     @ ''- Complete data coverage for accurate comparison\<newline>''
     @ ''\<newline>''
     @ ''**EXPERIMENT DETAILS:**\<newline>''
     @ join ''\<newline>'' (experiment_summary context_docs) @ ''\<newline>''
     @ ''\<newline>''
     @ ''**ANALYSIS INSTRUCTIONS:**\<newline>''
     @ ''- Compare data across ALL experiments\<newline>''
     @ ''- Identify patterns, differences, and performance metrics\<newline>''
     @ ''- For "which performed best" questions, analyze all relevant metrics and provide rankings\<newline>''
     @ ''- Extract specific numbers and statistics from the data\<newline>''
     @ ''- Clearly identify which experiment each data point comes from\<newline>''
     @ ''\<newline>''
     @ ''## FloodNS Framework Concepts:\<newline>''
     @ FRAMEWORK_CONTEXT E @ ''\<newline>''
     @ ''\<newline>''
     @ ''## COMPLETE Multi-Experiment Dataset ('' @ str_nat (length context_docs) @ '' files):\<newline>''
     @ context_string @ ''\<newline>''
     @ ''\<newline>''
     @ ''**User Question:** '' @ query @ ''\<newline>''
     @ ''\<newline>''
     @ ''**Provide comprehensive comparative analysis based on ALL available simulation data:**''\<close>

definition single_prompt :: "'f env \<Rightarrow> string \<Rightarrow> document list \<Rightarrow> string \<Rightarrow> string" where
  \<open>single_prompt E query context_docs context_string =
     ''You are an AI assistant performing COMPREHENSIVE ANALYSIS of network simulation data.\<newline>''
     @ ''\<newline>''
     @ ''IMPORTANT: You have access to ALL simulation files from this experiment. Use this complete dataset to provide thorough analysis.\<newline>''
     @ ''\<newline>''
     @ ''**ANALYSIS SCOPE:**\<newline>''
     @ ''- '' @ str_nat (length context_docs) @ '' total data files analyzed\<newline>''
     @ ''- Complete data coverage for accurate analysis\<newline>''
     @ ''\<newline>''
     @ ''**ANALYSIS INSTRUCTIONS:**\<newline>''
     @ ''- Analyze ALL available data files for comprehensive insights\<newline>''
     @ ''- Extract specific numbers, statistics and factual information from the provided data\<newline>''
     @ ''- If the data contains CSV content, analyze the structure and count unique entries if needed\<newline>''
     @ ''- For node counts, count unique node IDs. For bandwidth questions, look for numerical values\<newline>''
     @ ''- Provide detailed analysis based on ALL available simulation data\<newline>''
     @ ''\<newline>''
     @ ''## FloodNS Framework Concepts:\<newline>''
     @ FRAMEWORK_CONTEXT E @ ''\<newline>''
     @ ''\<newline>''
     @ ''## COMPLETE Single-Experiment Dataset ('' @ str_nat (length context_docs) @ '' files):\<newline>''
     @ context_string @ ''\<newline>''
     @ ''\<newline>''
     @ ''**User Question:** '' @ query @ ''\<newline>''
     @ ''\<newline>''
     @ ''**Provide comprehensive analysis based on ALL available simulation data:**''\<close>


section \<open>The sources block\<close>

definition multi_context_summary :: "document list \<Rightarrow> string" where
  "multi_context_summary context_docs =
     join ''\<newline>''
       (map (\<lambda>doc. ''- '' @ dict_get (doc_experiment_name doc) ''Unknown'' @ ''/''
                     @ dict_get (doc_filename doc) ''unknown'')
          context_docs)"

definition multi_sources_info :: "'f env \<Rightarrow> document list \<Rightarrow> string list \<Rightarrow> string" where
  "multi_sources_info E context_docs found =
     ''\<newline>Retrieved ALL '' @ str_nat (length context_docs) @ '' documents from ''
     @ str_nat (length found) @ '' experiments ('' @ join '', '' (set_iteration_order E found)
     @ ''):\<newline>'' @ multi_context_summary context_docs @ ''\<newline>''"

definition single_context_summary :: "string list \<Rightarrow> string" where
  "single_context_summary fnames = join ''\<newline>'' (map (\<lambda>filename. ''- '' @ filename) fnames)"

definition context_preview :: "document list \<Rightarrow> string" where
  "context_preview context_docs =
     join ''\<newline>'' (map (\<lambda>doc. take 100 (dict_get (doc_text doc) '''') @ ''...'') context_docs)"

definition single_sources_info :: "document list \<Rightarrow> string list \<Rightarrow> string" where
  "single_sources_info context_docs fnames =
     ''\<newline>Retrieved ALL '' @ str_nat (length context_docs)
     @ '' documents from single experiment:\<newline>'' @ single_context_summary fnames
     @ ''\<newline>\<newline>Used context:\<newline>'' @ context_preview context_docs @ ''\<newline>''"

definition with_sources :: "string \<Rightarrow> string \<Rightarrow> string" where
  "with_sources response sources_info =
     response @ ''\<newline>\<newline><sources>\<newline>'' @ sources_info @ ''\<newline></sources>''"


section \<open>\<open>generate_response\<close> and \<open>generate_response_with_reasoning\<close>\<close>

definition bandwidth_keywords :: "string list" where
  "bandwidth_keywords = [''bandwidth'', ''throughput'', ''speed'', ''data rate'']"

definition file_keywords :: "string list" where
  "file_keywords = [''flow'', ''flow_bandwidth'', ''flow bandwidth'', ''flow_bandwidth.csv'']"

definition stat_keywords :: "string list" where
  "stat_keywords =
     [''average'', ''avg'', ''mean'', ''statistics'', ''calculate'', ''median'', ''min'', ''max'']"

definition is_bandwidth_query :: "string \<Rightarrow> bool" where
  "is_bandwidth_query query =
     (let query_lower = lower query;
          bandwidth_match = list_ex (\<lambda>kw. py_in kw query_lower) bandwidth_keywords;
          file_match = list_ex (\<lambda>kw. py_in kw query_lower) file_keywords;
          stat_match = list_ex (\<lambda>kw. py_in kw query_lower) stat_keywords
      in (bandwidth_match \<and> (file_match \<or> stat_match)) \<or> (file_match \<and> stat_match))"

definition reasoning_phrases :: "string list" where
  "reasoning_phrases =
     [''step by step'', ''explain your thinking'', ''show your work'', ''reasoning'']"

definition is_reasoning_query :: "string \<Rightarrow> bool" where
  "is_reasoning_query query = list_ex (\<lambda>phrase. py_in phrase (lower query)) reasoning_phrases"

text \<open>
  The retrieval both entry points start with: the multi-experiment pool when it is not
  empty, else the single-experiment pool, \<open>None\<close> when both are empty. A retrieval call
  that raises (\<open>Inl\<close>) ends the enclosing \<open>try\<close>.
\<close>

definition retrieve :: "'f env \<Rightarrow> (exn + document list option) \<times> call list" where
  "retrieve E =
     (case get_all_multi_experiment_documents E of
        Inl e \<Rightarrow> (Inl e, [GetMultiDocs])
      | Inr all_multi_docs \<Rightarrow>
          if all_multi_docs \<noteq> [] then (Inr (Some all_multi_docs), [GetMultiDocs])
          else (case get_all_single_experiment_documents E of
                  Inl e \<Rightarrow> (Inl e, [GetMultiDocs, GetSingleDocs])
                | Inr all_single_docs \<Rightarrow>
                    if all_single_docs \<noteq> []
                    then (Inr (Some all_single_docs), [GetMultiDocs, GetSingleDocs])
                    else (Inr None, [GetMultiDocs, GetSingleDocs])))"

definition reasoning_contexts :: "document list \<Rightarrow> string list" where
  "reasoning_contexts context_docs =
     concat (map (\<lambda>doc. let filename = dict_get (doc_filename doc) ''unknown file'';
                            txt = dict_get (doc_text doc) ''''
                        in if txt \<noteq> [] then [single_label filename @ take 1500 txt @ ''...'']
                           else [])
               context_docs)"

definition combined_context :: "'f env \<Rightarrow> document list \<Rightarrow> string" where
  "combined_context E context_docs =
     ''## FloodNS Framework Concepts:\<newline>'' @ FRAMEWORK_CONTEXT E @ ''\<newline>\<newline>## Simulation Data:\<newline>''
     @ join ''\<newline>\<newline>'' (reasoning_contexts context_docs)"

definition generate_response_with_reasoning :: "'f env \<Rightarrow> string \<Rightarrow> string \<times> call list" where
  "generate_response_with_reasoning E query =
     (case retrieve E of
        (Inl e, calls) \<Rightarrow>
          (''I had trouble applying step-by-step reasoning to your question. Error: '' @ str_exn e,
           calls)
      | (Inr None, calls) \<Rightarrow> (''I couldn't find any simulation data to reason about.'', calls)
      | (Inr (Some context_docs), calls) \<Rightarrow>
          (let ctx = combined_context E context_docs
           in case think_step_by_step E query ctx of
                Inl e \<Rightarrow>
                  (''I had trouble applying step-by-step reasoning to your question. Error: ''
                     @ str_exn e,
                   calls @ [ThinkStepByStep query ctx])
              | Inr (reasoning, result) \<Rightarrow>
                  (''<thinking>\<newline>'' @ reasoning @ ''\<newline></thinking>\<newline>\<newline>'' @ result,
                   calls @ [ThinkStepByStep query ctx])))"

text \<open>
  The standard path of \<open>generate_response\<close> once a non-empty pool is there: aggregation,
  prompt, one generation call, sources block. Neither generation wrapper raises, so the
  handler of the inner \<open>try\<close> has no path to it.
\<close>

definition use_local :: "'f env \<Rightarrow> bool" where
  "use_local E = (lower (dict_get (USE_LOCAL_MODEL E) ''false'') = ''true'')"

definition standard_response :: "'f env \<Rightarrow> string \<Rightarrow> document list \<Rightarrow> string \<times> call list" where
  "standard_response E query context_docs =
     (let agg = aggregate context_docs;
          context_string = join ''\<newline>\<newline>'' (contexts agg);
          found = experiments_found agg;
          multi = (length found > 1);
          prompt = (if multi then multi_prompt E query context_docs found context_string
                    else single_prompt E query context_docs context_string);
          response = (if use_local E then generate_with_ollama E prompt
                      else generate_with_api E prompt context_docs query);
          calls = (if use_local E then [OllamaGenerate prompt] else [TextGeneration prompt])
      in if multi
         then (with_sources response (multi_sources_info E context_docs found), calls)
         else (with_sources response (single_sources_info context_docs (filenames agg)), calls))"

text \<open>
  The bandwidth branch at the head of \<open>generate_response\<close>: it returns only for a bandwidth
  query with a run directory whose analysis does not raise. The \<open>except\<close> clause that follows
  the \<open>return\<close> is the handler of the inner \<open>try\<close>: an exception of the import or of the
  analysis is dropped and the function goes on.
\<close>

definition bandwidth_branch :: "'f env \<Rightarrow> string \<Rightarrow> string option \<Rightarrow> string option \<times> call list" where
  "bandwidth_branch E query run_dir =
     (if is_bandwidth_query query
      then (case run_dir of
              None \<Rightarrow> (None, [])
            | Some d \<Rightarrow>
                if d \<noteq> []
                then (case analyze_bandwidth_for_chat E d query of
                        Inr answer \<Rightarrow> (Some answer, [AnalyzeBandwidth d query])
                      | Inl e \<Rightarrow> (None, [AnalyzeBandwidth d query]))
                else (None, []))
      else (None, []))"

definition generate_response :: "'f env \<Rightarrow> string \<Rightarrow> string option \<Rightarrow> string \<times> call list" where
  "generate_response E query run_dir =
     (case bandwidth_branch E query run_dir of
        (Some answer, calls) \<Rightarrow> (answer, calls)
      | (None, calls) \<Rightarrow>
          if is_reasoning_query query
          then (let (answer, calls') = generate_response_with_reasoning E query
                in (answer, calls @ calls'))
          else (case retrieve E of
                  (Inl e, calls') \<Rightarrow>
                    (''I had trouble searching through the simulation data. Please try again or ask an administrator to check the vector search configuration.'',
                     calls @ calls')
                | (Inr None, calls') \<Rightarrow>
                    (''I couldn't find any simulation data to answer your question.'',
                     calls @ calls')
                | (Inr (Some context_docs), calls') \<Rightarrow>
                    (let (answer, calls'') = standard_response E query context_docs
                     in (answer, calls @ calls' @ calls''))))"


section \<open>Re-running an experiment (\<open>routes/experiment_details.py\<close>)\<close>

text \<open>
  The experiment collection is a store from record id to record. Of a record the re-run
  reads \<open>params\<close> and writes \<open>state\<close>, \<open>end_time\<close> and \<open>error\<close>.
\<close>

record exp_record =
  exp_params :: "string option"
  exp_state :: "string option"
  exp_end_time :: "string option"
  exp_error :: "string option"

type_synonym collection = "string \<Rightarrow> exp_record option"

text \<open>
  What is raised in the background thread is either an instance of \<open>Exception\<close>, which the
  handler \<open>except Exception\<close> catches, or another \<open>BaseException\<close> (\<open>SystemExit\<close>,
  \<open>KeyboardInterrupt\<close>), which it does not catch; the latter is kept by its name.
\<close>

datatype thrown = Caught exn | Uncaught string

text \<open>The four places where the re-run calls the database.\<close>

datatype db_op = MarkReRunning | FindRecord | WriteFinished | WriteError

text \<open>
  What the re-run reaches outside the module: the \<open>Routing\<close> enumeration, \<open>int\<close>, the
  simulation job, the clock, and the database driver, whose call at each place may raise
  (\<open>db_fault\<close>).
\<close>

record run_env =
  routing_lookup :: "string \<Rightarrow> exn + string"
  py_int :: "string \<Rightarrow> exn + int"
  local_run_single_job :: "int \<Rightarrow> int \<Rightarrow> int \<Rightarrow> string \<Rightarrow> string \<Rightarrow> thrown + unit"
  now_isoformat :: string
  db_fault :: "db_op \<Rightarrow> exn option"

text \<open>
  \<open>ObjectId(simulation_id)\<close> on a string: a string of 24 hexadecimal digits is an id, any
  other string raises \<open>InvalidId\<close>.
\<close>

definition valid_object_id :: "string \<Rightarrow> bool" where
  "valid_object_id s =
     (length s = 24 \<and> list_all (\<lambda>c. c \<in> set ''0123456789abcdefABCDEF'') s)"

definition object_id :: "string \<Rightarrow> exn + string" where
  "object_id s =
     (if valid_object_id s then Inr s
      else Inl (Exception ([CHR 0x27] @ s @ [CHR 0x27]
                  @ '' is not a valid ObjectId, it must be a 12-byte input or a 24-character hex string'')))"

text \<open>
  \<open>update_one({"_id": ObjectId(simulation_id)}, {"$set": ...})\<close>: the id is built first, then
  the driver is called; the call changes the matching record, if there is one.
\<close>

definition update_one ::
    "run_env \<Rightarrow> db_op \<Rightarrow> collection \<Rightarrow> string \<Rightarrow> (exp_record \<Rightarrow> exp_record) \<Rightarrow> exn + collection" where
  "update_one R op coll simulation_id upd =
     (case object_id simulation_id of
        Inl e \<Rightarrow> Inl e
      | Inr oid \<Rightarrow>
          (case db_fault R op of
             Some e \<Rightarrow> Inl e
           | None \<Rightarrow>
               (case coll oid of
                  None \<Rightarrow> Inr coll
                | Some experiment \<Rightarrow> Inr (coll(oid \<mapsto> upd experiment)))))"

text \<open>\<open>find_one({"_id": ObjectId(simulation_id)})\<close>.\<close>

definition find_one :: "run_env \<Rightarrow> collection \<Rightarrow> string \<Rightarrow> exn + exp_record option" where
  "find_one R coll simulation_id =
     (case object_id simulation_id of
        Inl e \<Rightarrow> Inl e
      | Inr oid \<Rightarrow>
          (case db_fault R FindRecord of
             Some e \<Rightarrow> Inl e
           | None \<Rightarrow> Inr (coll oid)))"

text \<open>The \<open>ValueError\<close> of unpacking \<open>n\<close> fields into five names.\<close>

definition unpack_error :: "nat \<Rightarrow> exn" where
  "unpack_error n =
     Exception (if n < 5 then ''not enough values to unpack (expected 5, got '' @ str_nat n @ '')''
                else ''too many values to unpack (expected 5)'')"

text \<open>
  The body of the \<open>try\<close> in \<open>run_in_background\<close> from the read of \<open>params\<close> to the return
  of the job; \<open>Inl\<close> is what is raised.
\<close>

definition background_job :: "run_env \<Rightarrow> exp_record \<Rightarrow> thrown + unit" where
  "background_job R experiment =
     (case exp_params experiment of
        None \<Rightarrow> Inl (Caught (Exception ([CHR 0x27] @ ''params'' @ [CHR 0x27])))
      | Some params \<Rightarrow>
          (case split_char (CHR '','') params of
             [num_jobs, num_cores, ring_size, routing_str, seed] \<Rightarrow>
               (case routing_lookup R routing_str of
                  Inl e \<Rightarrow> Inl (Caught e)
                | Inr routing_enum \<Rightarrow>
                    (case py_int R seed of
                       Inl e \<Rightarrow> Inl (Caught e)
                     | Inr seed_int \<Rightarrow>
                         (case py_int R num_cores of
                            Inl e \<Rightarrow> Inl (Caught e)
                          | Inr cores_int \<Rightarrow>
                              (case py_int R ring_size of
                                 Inl e \<Rightarrow> Inl (Caught e)
                               | Inr ring_int \<Rightarrow>
                                   local_run_single_job R seed_int cores_int ring_int ''BLOOM''
                                     routing_enum))))
           | parts \<Rightarrow> Inl (Caught (unpack_error (length parts)))))"

definition set_finished :: "run_env \<Rightarrow> exp_record \<Rightarrow> exp_record" where
  "set_finished R experiment =
     experiment\<lparr>exp_state := Some ''Finished'', exp_end_time := Some (now_isoformat R)\<rparr>"

definition set_error :: "exn \<Rightarrow> exp_record \<Rightarrow> exp_record" where
  "set_error e experiment =
     experiment\<lparr>exp_state := Some ''Error'', exp_error := Some (str_exn e)\<rparr>"

text \<open>
  The whole body of the \<open>try\<close>: the read of the record, the early return when it is not
  found, the job, and the write of \<open>Finished\<close>, which is inside the \<open>try\<close> as well.
\<close>

definition background_body :: "run_env \<Rightarrow> collection \<Rightarrow> string \<Rightarrow> thrown + collection" where
  "background_body R coll simulation_id =
     (case find_one R coll simulation_id of
        Inl e \<Rightarrow> Inl (Caught e)
      | Inr None \<Rightarrow> Inr coll
      | Inr (Some experiment) \<Rightarrow>
          (case background_job R experiment of
             Inl t \<Rightarrow> Inl t
           | Inr u \<Rightarrow>
               (case update_one R WriteFinished coll simulation_id (set_finished R) of
                  Inl e \<Rightarrow> Inl (Caught e)
                | Inr coll' \<Rightarrow> Inr coll')))"

text \<open>
  How the thread ends: its function returns, or an exception leaves it. In both cases the
  thread has completed.
\<close>

datatype thread_end = ThreadReturned | ThreadDied string

text \<open>
  \<open>run_in_background\<close>: the handler writes \<open>Error\<close> for an \<open>Exception\<close>; its own write is
  not protected, and another \<open>BaseException\<close> passes the handler by.
\<close>

definition run_in_background :: "run_env \<Rightarrow> collection \<Rightarrow> string \<Rightarrow> collection \<times> thread_end" where
  "run_in_background R coll simulation_id =
     (case background_body R coll simulation_id of
        Inr coll' \<Rightarrow> (coll', ThreadReturned)
      | Inl (Caught e) \<Rightarrow>
          (case update_one R WriteError coll simulation_id (set_error e) of
             Inr coll' \<Rightarrow> (coll', ThreadReturned)
           | Inl e' \<Rightarrow> (coll, ThreadDied (str_exn e')))
      | Inl (Uncaught name) \<Rightarrow> (coll, ThreadDied name))"

text \<open>
  \<open>re_run_experiment\<close>: the state is written first; when the write raises, the function
  raises and no thread is started. Otherwise the result is the collection as it is when the
  thread is started, with the id the thread is started for.
\<close>

definition set_rerunning :: "exp_record \<Rightarrow> exp_record" where
  "set_rerunning experiment = experiment\<lparr>exp_state := Some ''Re-Running''\<rparr>"

definition re_run_experiment :: "run_env \<Rightarrow> collection \<Rightarrow> string \<Rightarrow> exn + collection \<times> string" where
  "re_run_experiment R coll simulation_id =
     (case update_one R MarkReRunning coll simulation_id set_rerunning of
        Inl e \<Rightarrow> Inl e
      | Inr coll' \<Rightarrow> Inr (coll', simulation_id))"

text \<open>The whole re-run: the update, the start of the thread, the thread run to its end.\<close>

definition re_run_completed :: "run_env \<Rightarrow> collection \<Rightarrow> string \<Rightarrow> exn + collection \<times> thread_end" where
  "re_run_completed R coll simulation_id =
     (case re_run_experiment R coll simulation_id of
        Inl e \<Rightarrow> Inl e
      | Inr (coll', thread_id) \<Rightarrow> Inr (run_in_background R coll' thread_id))"


section \<open>Auxiliary definitions for the statements\<close>

text \<open>The context entries one document contributes to the aggregation.\<close>

definition doc_context :: "nat \<Rightarrow> document \<Rightarrow> string list" where
  "doc_context n doc = contexts (aggregate_step n agg_init doc)"

text \<open>Example documents.\<close>

definition long_text :: string where
  "long_text = replicate 1200 (CHR ''x'')"

definition long_doc :: document where
  "long_doc =
     \<lparr>doc_filename = Some ''flow.txt'', doc_text = Some long_text,
      doc_experiment_name = Some ''expA'', doc_experiment_params = Some ''p''\<rparr>"

definition other_long_doc :: document where
  "other_long_doc =
     \<lparr>doc_filename = Some ''flow.txt'', doc_text = Some long_text,
      doc_experiment_name = Some ''expB'', doc_experiment_params = Some ''q''\<rparr>"

text \<open>Fifty-one documents of one experiment, and fifty-one documents of two experiments.\<close>

definition one_experiment_pool :: "document list" where
  "one_experiment_pool = replicate 51 long_doc"

definition two_experiment_pool :: "document list" where
  "two_experiment_pool = other_long_doc # replicate 50 long_doc"

definition short_csv_doc :: document where
  "short_csv_doc =
     \<lparr>doc_filename = Some ''links.csv'', doc_text = Some ''a,b\<newline>1,2\<newline>3,4'',
      doc_experiment_name = Some ''exp1'', doc_experiment_params = Some ''p''\<rparr>"

definition twelve_lines :: string where
  "twelve_lines = ''h\<newline>1\<newline>2\<newline>3\<newline>4\<newline>5\<newline>6\<newline>7\<newline>8\<newline>9\<newline>10\<newline>11''"

definition long_csv_doc :: document where
  "long_csv_doc =
     \<lparr>doc_filename = Some ''links.csv'', doc_text = Some twelve_lines,
      doc_experiment_name = Some ''exp1'', doc_experiment_params = Some ''p''\<rparr>"

definition unnamed_csv_doc :: document where
  "unnamed_csv_doc =
     \<lparr>doc_filename = Some ''links.csv'', doc_text = Some twelve_lines,
      doc_experiment_name = None, doc_experiment_params = None\<rparr>"

definition mixed_pool :: "document list" where
  "mixed_pool =
     [\<lparr>doc_filename = Some ''a.csv'', doc_text = Some ''x'',
       doc_experiment_name = Some ''A'', doc_experiment_params = Some ''p''\<rparr>,
      \<lparr>doc_filename = Some ''b.csv'', doc_text = Some '''',
       doc_experiment_name = Some ''B'', doc_experiment_params = Some ''q''\<rparr>]"

text \<open>
  An environment for the examples. Whole numbers stand in for floats: \<open>float\<close> accepts a
  run of digits, the mean is the quotient, and the format appends \<open>.00\<close>. Both generation
  services are down; pandas parses the two sample tables and fails on any other text.
\<close>

definition digits_value :: "string \<Rightarrow> nat" where
  "digits_value s = foldl (\<lambda>acc c. 10 * acc + (of_char c - 48)) 0 s"

definition example_env :: "nat env" where
  "example_env =
     \<lparr>FRAMEWORK_CONTEXT = ''Network, Node, Link, Flow'',
      USE_LOCAL_MODEL = None,
      analyze_bandwidth_for_chat = (\<lambda>run_dir query. Inr ''Average bandwidth: 20.00''),
      get_all_multi_experiment_documents = Inr [],
      get_all_single_experiment_documents = Inr [],
      think_step_by_step = (\<lambda>query ctx. Inr (''r'', ''a'')),
      ollama_response = (\<lambda>prompt. Inl (Exception ''connection refused'')),
      text_generation = (\<lambda>prompt. Inl (Exception ''service unavailable'')),
      pandas_nunique_first_column =
        (\<lambda>txt. if txt = ''A,1\<newline>A,2\<newline>B,3\<newline>C,4'' then Inr 3
               else Inl (Exception ''ParserError'')),
      pandas_mean_last_column_2f =
        (\<lambda>txt. if txt = ''0,10\<newline>1,20\<newline>2,30'' then Inr ''20.00''
               else Inl (Exception ''ParserError'')),
      float_of_str =
        (\<lambda>s. if s \<noteq> [] \<and> list_all (\<lambda>c. c \<in> set ''0123456789'') s then Inr (digits_value s)
             else Inl (Exception ''ValueError'')),
      float_gt_zero = (\<lambda>x. x > 0),
      float_sum = sum_list,
      float_div_len = (\<lambda>x n. x div n),
      format_2f = (\<lambda>x. str_nat x @ ''.00''),
      set_iteration_order = (\<lambda>xs. xs)\<rparr>"

definition bandwidth_table_doc :: document where
  "bandwidth_table_doc =
     \<lparr>doc_filename = Some ''flow_bandwidth.csv'', doc_text = Some ''0,10\<newline>1,20\<newline>2,30'',
      doc_experiment_name = None, doc_experiment_params = None\<rparr>"

definition node_table_doc :: document where
  "node_table_doc =
     \<lparr>doc_filename = Some ''node_info.csv'', doc_text = Some ''A,1\<newline>A,2\<newline>B,3\<newline>C,4'',
      doc_experiment_name = None, doc_experiment_params = None\<rparr>"

definition pool_env :: "nat env" where
  "pool_env = example_env\<lparr>get_all_single_experiment_documents := Inr [bandwidth_table_doc]\<rparr>"

text \<open>An example collection with one record, and an environment for its re-run.\<close>

definition example_record :: exp_record where
  "example_record =
     \<lparr>exp_params = Some ''4,1,2,ecmp,7'', exp_state = Some ''Finished'',
      exp_end_time = Some ''2024-01-01T10:00:00'', exp_error = None\<rparr>"

definition example_id :: string where
  "example_id = ''65f0c0ffee65f0c0ffee65f0''"

definition example_collection :: collection where
  "example_collection = (\<lambda>simulation_id. None)(example_id \<mapsto> example_record)"

definition example_run_env :: run_env where
  "example_run_env =
     \<lparr>routing_lookup =
        (\<lambda>s. if s \<in> set [''ecmp'', ''ilp_solver'', ''simulated_annealing''] then Inr s
             else Inl (Exception s)),
      py_int =
        (\<lambda>s. if s \<noteq> [] \<and> list_all (\<lambda>c. c \<in> set ''0123456789'') s
             then Inr (int (digits_value s))
             else Inl (Exception ''invalid literal for int()'')),
      local_run_single_job = (\<lambda>seed n_core_failures ring_size model alg. Inr ()),
      now_isoformat = ''2024-01-02T09:30:00'',
      db_fault = (\<lambda>op. None)\<rparr>"

text \<open>The same environment with a job that ends in \<open>SystemExit\<close>.\<close>

definition exiting_run_env :: run_env where
  "exiting_run_env =
     example_run_env
       \<lparr>local_run_single_job :=
          (\<lambda>seed n_core_failures ring_size model alg. Inl (Uncaught ''SystemExit''))\<rparr>"

text \<open>
  The same environment with a job that raises and a database that is gone when the handler
  writes.
\<close>

definition failing_write_run_env :: run_env where
  "failing_write_run_env =
     example_run_env
       \<lparr>local_run_single_job :=
          (\<lambda>seed n_core_failures ring_size model alg.
             Inl (Caught (Exception ''simulation failed''))),
        db_fault :=
          (\<lambda>op. if op = WriteError then Some (Exception ''ServerSelectionTimeoutError'')
                else None)\<rparr>"

text \<open>The number of non-empty lines of a text, in the words of the specification.\<close>

definition count_nonempty_lines :: "string \<Rightarrow> nat" where
  "count_nonempty_lines txt = length (filter (\<lambda>line. line \<noteq> []) (split_nl txt))"

definition ragged_node_doc :: document where
  "ragged_node_doc =
     \<lparr>doc_filename = Some ''node_info.csv'', doc_text = Some ''a\<newline>\<newline>b,c'',
      doc_experiment_name = None, doc_experiment_params = None\<rparr>"

text \<open>
  The prompt and the sources text of the standard path, as \<open>standard_response\<close> builds them
  from the pool.
\<close>

definition standard_prompt :: "'f env \<Rightarrow> string \<Rightarrow> document list \<Rightarrow> string" where
  "standard_prompt E query context_docs =
     (if is_multi_experiment context_docs
      then multi_prompt E query context_docs (experiments_found (aggregate context_docs))
             (join ''\<newline>\<newline>'' (contexts (aggregate context_docs)))
      else single_prompt E query context_docs
             (join ''\<newline>\<newline>'' (contexts (aggregate context_docs))))"

definition standard_sources_info :: "'f env \<Rightarrow> document list \<Rightarrow> string" where
  "standard_sources_info E context_docs =
     (if is_multi_experiment context_docs
      then multi_sources_info E context_docs (experiments_found (aggregate context_docs))
      else single_sources_info context_docs (filenames (aggregate context_docs)))"


text \<open>
  The body of the \<open>try\<close> raises the \<open>Exception\<close> \<open>e\<close>: at the read of the record, in the
  job, or at the write of \<open>Finished\<close>.
\<close>

definition body_raises :: "run_env \<Rightarrow> exp_record \<Rightarrow> exn \<Rightarrow> bool" where
  "body_raises R x e =
     (db_fault R FindRecord = Some e
      \<or> (db_fault R FindRecord = None \<and> background_job R x = Inl (Caught e))
      \<or> (db_fault R FindRecord = None \<and> background_job R x = Inr ()
          \<and> db_fault R WriteFinished = Some e))"

text \<open>The record of one id and the end of the thread, after a whole re-run.\<close>

definition outcome_at ::
    "exn + collection \<times> thread_end \<Rightarrow> string \<Rightarrow> exn + exp_record option \<times> thread_end" where
  "outcome_at r simulation_id =
     (case r of
        Inl e \<Rightarrow> Inl e
      | Inr (coll, t) \<Rightarrow> Inr (coll simulation_id, t))"


section \<open>Facts about strings\<close>

lemma py_in_single: "py_in [c] s \<longleftrightarrow> c \<in> set s"
  unfolding py_in_def
  by (induction s) (auto simp: sublist_Cons_right)

lemma split_char_not_Nil: "split_char c s \<noteq> []"
  by (induction s) (simp_all split: list.splits)

lemma length_split_char: "length (split_char c s) = Suc (length (filter (\<lambda>x. x = c) s))"
  by (induction s) (auto split: list.splits simp: split_char_not_Nil)

lemma many_fields_has_sep:
  assumes "length (split_char c txt) > 1"
  shows "c \<in> set txt"
proof -
  have "length (filter (\<lambda>x. x = c) txt) > 0"
    using assms by (simp add: length_split_char)
  then have "filter (\<lambda>x. x = c) txt \<noteq> []"
    by simp
  then show ?thesis
    by (auto simp: filter_empty_conv)
qed

lemma many_lines_has_newline:
  assumes "length (split_nl txt) > 10"
  shows "py_in ''\<newline>'' txt"
proof -
  have "length (split_char (CHR ''\<newline>'') txt) > 1"
    using assms by (simp add: split_nl_def)
  then have "CHR ''\<newline>'' \<in> set txt"
    by (rule many_fields_has_sep)
  then show ?thesis
    by (simp only: py_in_single)
qed


section \<open>The aggregation loop\<close>

lemma contexts_aggregate_step:
  "contexts (aggregate_step n st doc) = contexts st @ doc_context n doc"
  by (simp add: doc_context_def aggregate_step_def agg_init_def Let_def)

lemma contexts_foldl_aggregate_step:
  "contexts (foldl (aggregate_step n) st docs) = contexts st @ concat (map (doc_context n) docs)"
  by (induction docs arbitrary: st) (simp_all add: contexts_aggregate_step)

lemma contexts_aggregate:
  "contexts (aggregate docs) = concat (map (doc_context (length docs)) docs)"
  by (simp add: aggregate_def contexts_foldl_aggregate_step agg_init_def)

lemma doc_context_member:
  assumes "doc \<in> set docs" and "x \<in> set (doc_context (length docs) doc)"
  shows "x \<in> set (contexts (aggregate docs))"
  using assms by (auto simp: contexts_aggregate)

lemma doc_context_multi:
  assumes "dict_get (doc_text doc) '''' \<noteq> []"
    and "dict_get (doc_experiment_name doc) '''' \<noteq> []"
  shows "doc_context n doc =
           [multi_label (dict_get (doc_experiment_name doc) '''')
              (dict_get (doc_filename doc) ''unknown file'')
              (dict_get (doc_experiment_params doc) '''')
            @ excerpt n (dict_get (doc_filename doc) ''unknown file'')
                (dict_get (doc_text doc) '''')
            @ ''...'']"
  using assms unfolding doc_context_def aggregate_step_def agg_init_def Let_def
  by simp

lemma doc_context_single:
  assumes "dict_get (doc_text doc) '''' \<noteq> []"
    and "dict_get (doc_experiment_name doc) '''' = []"
  shows "doc_context n doc =
           [single_label (dict_get (doc_filename doc) ''unknown file'')
            @ take 1000 (dict_get (doc_text doc) '''') @ ''...'']"
  using assms unfolding doc_context_def aggregate_step_def agg_init_def Let_def
  by simp

lemma excerpt_raw:
  assumes "\<not> (endswith fname ''.csv'' \<and> length (split_nl txt) > 10)"
  shows "excerpt n fname txt = take (text_length n) txt"
  using assms unfolding excerpt_def Let_def by auto

lemma excerpt_structural:
  assumes "endswith fname ''.csv''" and "length (split_nl txt) > 10"
  shows "excerpt n fname txt = csv_excerpt (split_nl txt)"
  using assms many_lines_has_newline [OF assms(2)] unfolding excerpt_def Let_def by simp


section \<open>What the two computations of the flag count\<close>

lemma set_add_set: "set (set_add x xs) = insert x (set xs)"
  by (auto simp: set_add_def)

lemma set_add_distinct: "distinct xs \<Longrightarrow> distinct (set_add x xs)"
  by (simp add: set_add_def)

lemma fallback_found_foldl:
  "set (foldl (\<lambda>found doc.
              let experiment_name = dict_get (doc_experiment_name doc) ''''
              in if experiment_name \<noteq> [] then set_add experiment_name found else found)
         acc docs)
     = set acc \<union> experiment_names docs
   \<and> (distinct acc \<longrightarrow>
        distinct (foldl (\<lambda>found doc.
              let experiment_name = dict_get (doc_experiment_name doc) ''''
              in if experiment_name \<noteq> [] then set_add experiment_name found else found)
         acc docs))"
proof (induction docs arbitrary: acc)
  case Nil
  then show ?case by (simp add: experiment_names_def)
next
  case (Cons d docs)
  show ?case
    using Cons.IH [of "set_add (dict_get (doc_experiment_name d) '''') acc"] Cons.IH [of acc]
    by (auto simp: Let_def experiment_names_def set_add_set set_add_distinct)
qed

text \<open>
  \<open>fallback_parser\<close> computes the flag as the invariant of the context bundle states it.
\<close>

lemma fallback_is_multi_experiment_iff:
  "fallback_is_multi_experiment docs \<longleftrightarrow> card (experiment_names docs) > 1"
proof -
  have "set (fallback_experiments_found docs) = experiment_names docs"
    and "distinct (fallback_experiments_found docs)"
    using fallback_found_foldl [of "[]" docs] by (simp_all add: fallback_experiments_found_def)
  then have "length (fallback_experiments_found docs) = card (experiment_names docs)"
    using distinct_card by metis
  then show ?thesis
    by (simp add: fallback_is_multi_experiment_def)
qed

lemma experiments_found_aggregate_step:
  "experiments_found (aggregate_step n st doc)
     = (if dict_get (doc_text doc) '''' \<noteq> [] \<and> dict_get (doc_experiment_name doc) '''' \<noteq> []
        then set_add (dict_get (doc_experiment_name doc) '''') (experiments_found st)
        else experiments_found st)"
  by (simp add: aggregate_step_def Let_def)

lemma experiments_found_foldl:
  "set (experiments_found (foldl (aggregate_step n) st docs))
     = set (experiments_found st)
       \<union> experiment_names (filter (\<lambda>doc. dict_get (doc_text doc) '''' \<noteq> []) docs)
   \<and> (distinct (experiments_found st) \<longrightarrow>
        distinct (experiments_found (foldl (aggregate_step n) st docs)))"
proof (induction docs arbitrary: st)
  case Nil
  then show ?case by (simp add: experiment_names_def)
next
  case (Cons d docs)
  show ?case
    using Cons.IH [of "aggregate_step n st d"]
    by (auto simp: experiments_found_aggregate_step experiment_names_def set_add_set
        set_add_distinct)
qed

text \<open>
  \<open>generate_response\<close> computes it from the documents with non-empty text alone.
\<close>

lemma is_multi_experiment_iff:
  "is_multi_experiment docs
     \<longleftrightarrow> card (experiment_names (filter (\<lambda>doc. dict_get (doc_text doc) '''' \<noteq> []) docs)) > 1"
proof -
  have "set (experiments_found (aggregate docs))
          = experiment_names (filter (\<lambda>doc. dict_get (doc_text doc) '''' \<noteq> []) docs)"
    and "distinct (experiments_found (aggregate docs))"
    using experiments_found_foldl [of "length docs" agg_init docs]
    by (simp_all add: aggregate_def agg_init_def)
  then have "length (experiments_found (aggregate docs))
          = card (experiment_names (filter (\<lambda>doc. dict_get (doc_text doc) '''' \<noteq> []) docs))"
    using distinct_card by metis
  then show ?thesis
    by (simp add: is_multi_experiment_def)
qed


section \<open>Excerpt length by pool size\<close>

lemma concat_replicate_single: "concat (replicate n [y]) = replicate n y"
  by (induction n) simp_all

lemma long_doc_context:
  "doc_context n long_doc
     = [multi_label ''expA'' ''flow.txt'' ''p'' @ take (text_length n) long_text @ ''...'']"
proof -
  have t: "dict_get (doc_text long_doc) '''' = long_text"
    and f: "dict_get (doc_filename long_doc) ''unknown file'' = ''flow.txt''"
    and e: "dict_get (doc_experiment_name long_doc) '''' = ''expA''"
    and p: "dict_get (doc_experiment_params long_doc) '''' = ''p''"
    by (simp_all add: long_doc_def dict_get_def)
  have ne: "long_text \<noteq> []"
    by (simp add: long_text_def)
  have "\<not> endswith ''flow.txt'' ''.csv''"
    by (simp add: endswith_def suffix_to_prefix)
  then have x: "excerpt n ''flow.txt'' long_text = take (text_length n) long_text"
    by (intro excerpt_raw) simp
  have "doc_context n long_doc
          = [multi_label (dict_get (doc_experiment_name long_doc) '''')
               (dict_get (doc_filename long_doc) ''unknown file'')
               (dict_get (doc_experiment_params long_doc) '''')
             @ excerpt n (dict_get (doc_filename long_doc) ''unknown file'')
                 (dict_get (doc_text long_doc) '''')
             @ ''...'']"
    using ne by (intro doc_context_multi) (simp_all add: t e)
  then show ?thesis
    by (simp only: t f e p x)
qed

text \<open>
  Claim C3, as stated, fails in its last part. In a pool of 51 documents that all carry the
  name of one experiment the flag \<open>is_multi_experiment\<close> is false, so the run is in
  single-experiment mode; yet each document, whose text has 1200 characters, enters the
  context with an excerpt of 400 characters, not of 1000.
\<close>

theorem excerpt_length_counterexample:
  "length one_experiment_pool = 51
   \<and> is_multi_experiment one_experiment_pool = False
   \<and> length long_text = 1200
   \<and> contexts (aggregate one_experiment_pool)
       = replicate 51 (multi_label ''expA'' ''flow.txt'' ''p'' @ replicate 400 (CHR ''x'') @ ''...'')"
proof (intro conjI)
  show n: "length one_experiment_pool = 51"
    by (simp add: one_experiment_pool_def)
  have "experiment_names
          (filter (\<lambda>doc. dict_get (doc_text doc) '''' \<noteq> []) one_experiment_pool) = {''expA''}"
    by (auto simp: experiment_names_def one_experiment_pool_def long_doc_def long_text_def
        dict_get_def)
  then show "is_multi_experiment one_experiment_pool = False"
    by (simp add: is_multi_experiment_iff)
  show "length long_text = 1200"
    by (simp add: long_text_def)
  have "take (text_length 51) long_text = replicate 400 (CHR ''x'')"
    by (simp add: text_length_def long_text_def)
  then have d: "doc_context 51 long_doc
          = [multi_label ''expA'' ''flow.txt'' ''p'' @ replicate 400 (CHR ''x'') @ ''...'']"
    by (simp only: long_doc_context)
  have c: "contexts (aggregate (replicate 51 long_doc))
          = concat (replicate 51 (doc_context 51 long_doc))"
    by (simp add: contexts_aggregate)
  show "contexts (aggregate one_experiment_pool)
       = replicate 51 (multi_label ''expA'' ''flow.txt'' ''p'' @ replicate 400 (CHR ''x'') @ ''...'')"
    by (simp only: one_experiment_pool_def c d concat_replicate_single)
qed

text \<open>
  Claim C3, amended. The excerpt length is chosen for each document from what the document
  carries, not from the flag of the pool. A document with non-empty text that carries an
  experiment name and is not excerpted structurally enters the context with the prefix of
  its text of length 400 when the pool has more than 50 documents, 600 when it has more than
  20, and 1000 otherwise, whether the flag \<open>is_multi_experiment\<close> is true or false; a
  document without an experiment name always enters with the prefix of length 1000. At the
  boundaries, pools of 51 and 21 documents take 400 and 600, pools of 50 and 20 take 600 and
  1000.
\<close>

theorem excerpt_length_by_document:
  assumes "doc \<in> set context_docs"
    and "dict_get (doc_text doc) '''' \<noteq> []"
  shows "(dict_get (doc_experiment_name doc) '''' \<noteq> [] \<and>
          \<not> (endswith (dict_get (doc_filename doc) ''unknown file'') ''.csv''
             \<and> length (split_nl (dict_get (doc_text doc) '''')) > 10)
          \<longrightarrow> multi_label (dict_get (doc_experiment_name doc) '''')
                 (dict_get (doc_filename doc) ''unknown file'')
                 (dict_get (doc_experiment_params doc) '''')
               @ take (if length context_docs > 50 then 400
                       else if length context_docs > 20 then 600 else 1000)
                   (dict_get (doc_text doc) '''')
               @ ''...''
              \<in> set (contexts (aggregate context_docs)))
       \<and> (dict_get (doc_experiment_name doc) '''' = []
          \<longrightarrow> single_label (dict_get (doc_filename doc) ''unknown file'')
               @ take 1000 (dict_get (doc_text doc) '''') @ ''...''
              \<in> set (contexts (aggregate context_docs)))
       \<and> text_length 51 = 400 \<and> text_length 21 = 600
       \<and> text_length 50 = 600 \<and> text_length 20 = 1000"
proof (intro conjI impI)
  let ?n = "length context_docs"
  let ?txt = "dict_get (doc_text doc) ''''"
  let ?fname = "dict_get (doc_filename doc) ''unknown file''"
  let ?label = "multi_label (dict_get (doc_experiment_name doc) '''') ?fname
                  (dict_get (doc_experiment_params doc) '''')"
  {
    assume h: "dict_get (doc_experiment_name doc) '''' \<noteq> [] \<and>
          \<not> (endswith ?fname ''.csv'' \<and> length (split_nl ?txt) > 10)"
    have "doc_context ?n doc = [?label @ excerpt ?n ?fname ?txt @ ''...'']"
      using h assms(2) by (intro doc_context_multi) simp_all
    moreover have "excerpt ?n ?fname ?txt = take (text_length ?n) ?txt"
      using h by (intro excerpt_raw) simp
    moreover have "text_length ?n = (if ?n > 50 then 400 else if ?n > 20 then 600 else 1000)"
      by (simp only: text_length_def)
    ultimately have "?label @ take (if ?n > 50 then 400 else if ?n > 20 then 600 else 1000) ?txt
               @ ''...'' \<in> set (doc_context ?n doc)"
      by (simp only: list.set_intros)
    then show "?label @ take (if ?n > 50 then 400 else if ?n > 20 then 600 else 1000) ?txt
               @ ''...'' \<in> set (contexts (aggregate context_docs))"
      by (rule doc_context_member [OF assms(1)])
  }
  {
    assume h: "dict_get (doc_experiment_name doc) '''' = []"
    have "doc_context ?n doc = [single_label ?fname @ take 1000 ?txt @ ''...'']"
      using h assms(2) by (intro doc_context_single) simp_all
    then have "single_label ?fname @ take 1000 ?txt @ ''...'' \<in> set (doc_context ?n doc)"
      by (simp only: list.set_intros)
    then show "single_label ?fname @ take 1000 ?txt @ ''...''
        \<in> set (contexts (aggregate context_docs))"
      by (rule doc_context_member [OF assms(1)])
  }
  show "text_length 51 = 400" by (simp add: text_length_def)
  show "text_length 21 = 600" by (simp add: text_length_def)
  show "text_length 50 = 600" by (simp add: text_length_def)
  show "text_length 20 = 1000" by (simp add: text_length_def)
qed

theorem excerpt_length_by_document_witness:
  "long_doc \<in> set two_experiment_pool
   \<and> length two_experiment_pool = 51
   \<and> is_multi_experiment two_experiment_pool
   \<and> length (dict_get (doc_text long_doc) '''') = 1200
   \<and> dict_get (doc_experiment_name long_doc) '''' = ''expA''
   \<and> \<not> endswith (dict_get (doc_filename long_doc) ''unknown file'') ''.csv''
   \<and> multi_label ''expA'' ''flow.txt'' ''p'' @ replicate 400 (CHR ''x'') @ ''...''
       \<in> set (contexts (aggregate two_experiment_pool))"
proof -
  have h1: "long_doc \<in> set two_experiment_pool"
    by (simp add: two_experiment_pool_def)
  have n: "length two_experiment_pool = 51"
    by (simp add: two_experiment_pool_def)
  have t: "dict_get (doc_text long_doc) '''' = long_text"
    by (simp add: long_doc_def dict_get_def)
  have l: "length (dict_get (doc_text long_doc) '''') = 1200"
    by (simp add: t long_text_def)
  have h2: "dict_get (doc_text long_doc) '''' \<noteq> []"
    by (simp add: t long_text_def)
  have h3: "dict_get (doc_experiment_name long_doc) '''' = ''expA''"
    by (simp add: long_doc_def dict_get_def)
  have h4: "\<not> endswith (dict_get (doc_filename long_doc) ''unknown file'') ''.csv''"
    by (simp add: long_doc_def dict_get_def endswith_def suffix_to_prefix)
  have "experiment_names
          (filter (\<lambda>doc. dict_get (doc_text doc) '''' \<noteq> []) two_experiment_pool)
          = {''expA'', ''expB''}"
    by (auto simp: experiment_names_def two_experiment_pool_def long_doc_def other_long_doc_def
        long_text_def dict_get_def)
  then have m: "is_multi_experiment two_experiment_pool"
    by (simp add: is_multi_experiment_iff)
  have "multi_label (dict_get (doc_experiment_name long_doc) '''')
          (dict_get (doc_filename long_doc) ''unknown file'')
          (dict_get (doc_experiment_params long_doc) '''')
        @ take (if length two_experiment_pool > 50 then 400
                else if length two_experiment_pool > 20 then 600 else 1000)
            (dict_get (doc_text long_doc) '''')
        @ ''...'' \<in> set (contexts (aggregate two_experiment_pool))"
    using excerpt_length_by_document [OF h1 h2] h3 h4 by simp
  moreover have "take (if length two_experiment_pool > 50 then 400
                else if length two_experiment_pool > 20 then 600 else 1000)
            (dict_get (doc_text long_doc) '''') = replicate 400 (CHR ''x'')"
    by (simp add: n t long_text_def)
  moreover have "multi_label (dict_get (doc_experiment_name long_doc) '''')
          (dict_get (doc_filename long_doc) ''unknown file'')
          (dict_get (doc_experiment_params long_doc) '''') = multi_label ''expA'' ''flow.txt'' ''p''"
    by (simp add: long_doc_def dict_get_def)
  ultimately have "multi_label ''expA'' ''flow.txt'' ''p'' @ replicate 400 (CHR ''x'') @ ''...''
       \<in> set (contexts (aggregate two_experiment_pool))"
    by simp
  then show ?thesis
    using h1 n m l h3 h4 by blast
qed


section \<open>Structural excerpts of delimited files\<close>

text \<open>
  Claim C4, as stated, fails: a \<open>.csv\<close> document of three lines that carries an experiment
  name enters the context with the raw prefix of its text, not with first five lines,
  ellipsis and last three lines; and a \<open>.csv\<close> document of twelve lines without an experiment
  name enters with its raw prefix as well.
\<close>

theorem structural_excerpt_counterexample:
  "endswith ''links.csv'' ''.csv''
   \<and> py_in ''\<newline>'' ''a,b\<newline>1,2\<newline>3,4''
   \<and> contexts (aggregate [short_csv_doc])
       = [''From exp1 - links.csv (Parameters: p):\<newline>a,b\<newline>1,2\<newline>3,4...'']
   \<and> csv_excerpt (split_nl ''a,b\<newline>1,2\<newline>3,4'')
       = ''a,b\<newline>1,2\<newline>3,4\<newline>...\<newline>a,b\<newline>1,2\<newline>3,4''
   \<and> py_in ''\<newline>'' twelve_lines
   \<and> contexts (aggregate [unnamed_csv_doc]) = [''From links.csv:\<newline>'' @ twelve_lines @ ''...'']"
  by code_simp

text \<open>
  Claim C4, amended. A document with non-empty text that carries an experiment name, whose
  file name ends in \<open>.csv\<close> and whose text splits into more than ten lines enters the
  context with its first five lines, the line \<open>...\<close> and its last three lines, joined by
  newlines. With ten lines or fewer, or another file name, it enters with the raw prefix of the
  length chosen by pool size; without an experiment name it enters with the raw prefix of
  length 1000.
\<close>

theorem structural_excerpt_over_ten_lines:
  assumes "doc \<in> set context_docs"
    and "dict_get (doc_text doc) '''' \<noteq> []"
  shows "(dict_get (doc_experiment_name doc) '''' \<noteq> []
          \<and> endswith (dict_get (doc_filename doc) ''unknown file'') ''.csv''
          \<and> length (split_nl (dict_get (doc_text doc) '''')) > 10
          \<longrightarrow> multi_label (dict_get (doc_experiment_name doc) '''')
                 (dict_get (doc_filename doc) ''unknown file'')
                 (dict_get (doc_experiment_params doc) '''')
               @ join ''\<newline>''
                   (take 5 (split_nl (dict_get (doc_text doc) '''')) @ [''...'']
                    @ drop (length (split_nl (dict_get (doc_text doc) '''')) - 3)
                        (split_nl (dict_get (doc_text doc) '''')))
               @ ''...''
              \<in> set (contexts (aggregate context_docs)))
       \<and> (dict_get (doc_experiment_name doc) '''' \<noteq> []
          \<and> \<not> (endswith (dict_get (doc_filename doc) ''unknown file'') ''.csv''
                \<and> length (split_nl (dict_get (doc_text doc) '''')) > 10)
          \<longrightarrow> multi_label (dict_get (doc_experiment_name doc) '''')
                 (dict_get (doc_filename doc) ''unknown file'')
                 (dict_get (doc_experiment_params doc) '''')
               @ take (text_length (length context_docs)) (dict_get (doc_text doc) '''')
               @ ''...''
              \<in> set (contexts (aggregate context_docs)))
       \<and> (dict_get (doc_experiment_name doc) '''' = []
          \<longrightarrow> single_label (dict_get (doc_filename doc) ''unknown file'')
               @ take 1000 (dict_get (doc_text doc) '''') @ ''...''
              \<in> set (contexts (aggregate context_docs)))"
proof (intro conjI impI)
  let ?n = "length context_docs"
  let ?txt = "dict_get (doc_text doc) ''''"
  let ?fname = "dict_get (doc_filename doc) ''unknown file''"
  let ?label = "multi_label (dict_get (doc_experiment_name doc) '''') ?fname
                  (dict_get (doc_experiment_params doc) '''')"
  {
    assume h: "dict_get (doc_experiment_name doc) '''' \<noteq> []
          \<and> endswith ?fname ''.csv'' \<and> length (split_nl ?txt) > 10"
    have "doc_context ?n doc = [?label @ excerpt ?n ?fname ?txt @ ''...'']"
      using h assms(2) by (intro doc_context_multi) simp_all
    moreover have "excerpt ?n ?fname ?txt = csv_excerpt (split_nl ?txt)"
      using h by (intro excerpt_structural) simp_all
    moreover have "csv_excerpt (split_nl ?txt)
        = join ''\<newline>'' (take 5 (split_nl ?txt) @ [''...'']
                     @ drop (length (split_nl ?txt) - 3) (split_nl ?txt))"
      by (simp only: csv_excerpt_def)
    ultimately have "?label @ join ''\<newline>'' (take 5 (split_nl ?txt) @ [''...'']
                     @ drop (length (split_nl ?txt) - 3) (split_nl ?txt)) @ ''...''
         \<in> set (doc_context ?n doc)"
      by (simp only: list.set_intros)
    then show "?label @ join ''\<newline>'' (take 5 (split_nl ?txt) @ [''...'']
                     @ drop (length (split_nl ?txt) - 3) (split_nl ?txt)) @ ''...''
         \<in> set (contexts (aggregate context_docs))"
      by (rule doc_context_member [OF assms(1)])
  }
  {
    assume h: "dict_get (doc_experiment_name doc) '''' \<noteq> []
          \<and> \<not> (endswith ?fname ''.csv'' \<and> length (split_nl ?txt) > 10)"
    have "doc_context ?n doc = [?label @ excerpt ?n ?fname ?txt @ ''...'']"
      using h assms(2) by (intro doc_context_multi) simp_all
    moreover have "excerpt ?n ?fname ?txt = take (text_length ?n) ?txt"
      using h by (intro excerpt_raw) simp
    ultimately have "?label @ take (text_length ?n) ?txt @ ''...'' \<in> set (doc_context ?n doc)"
      by (simp only: list.set_intros)
    then show "?label @ take (text_length ?n) ?txt @ ''...''
         \<in> set (contexts (aggregate context_docs))"
      by (rule doc_context_member [OF assms(1)])
  }
  {
    assume h: "dict_get (doc_experiment_name doc) '''' = []"
    have "doc_context ?n doc = [single_label ?fname @ take 1000 ?txt @ ''...'']"
      using h assms(2) by (intro doc_context_single) simp_all
    then have "single_label ?fname @ take 1000 ?txt @ ''...'' \<in> set (doc_context ?n doc)"
      by (simp only: list.set_intros)
    then show "single_label ?fname @ take 1000 ?txt @ ''...''
        \<in> set (contexts (aggregate context_docs))"
      by (rule doc_context_member [OF assms(1)])
  }
qed

theorem structural_excerpt_over_ten_lines_witness:
  "long_csv_doc \<in> set [long_csv_doc]
   \<and> dict_get (doc_text long_csv_doc) '''' \<noteq> []
   \<and> dict_get (doc_experiment_name long_csv_doc) '''' \<noteq> []
   \<and> endswith (dict_get (doc_filename long_csv_doc) ''unknown file'') ''.csv''
   \<and> length (split_nl (dict_get (doc_text long_csv_doc) '''')) > 10
   \<and> ''From exp1 - links.csv (Parameters: p):\<newline>h\<newline>1\<newline>2\<newline>3\<newline>4\<newline>...\<newline>9\<newline>10\<newline>11...''
       \<in> set (contexts (aggregate [long_csv_doc]))"
proof -
  have h1: "long_csv_doc \<in> set [long_csv_doc]"
    by simp
  have h2: "dict_get (doc_text long_csv_doc) '''' \<noteq> []"
    by code_simp
  have h3: "dict_get (doc_experiment_name long_csv_doc) '''' \<noteq> []"
    by code_simp
  have h4: "endswith (dict_get (doc_filename long_csv_doc) ''unknown file'') ''.csv''"
    by code_simp
  have h5: "length (split_nl (dict_get (doc_text long_csv_doc) '''')) > 10"
    by code_simp
  have e: "multi_label (dict_get (doc_experiment_name long_csv_doc) '''')
                 (dict_get (doc_filename long_csv_doc) ''unknown file'')
                 (dict_get (doc_experiment_params long_csv_doc) '''')
               @ join ''\<newline>''
                   (take 5 (split_nl (dict_get (doc_text long_csv_doc) '''')) @ [''...'']
                    @ drop (length (split_nl (dict_get (doc_text long_csv_doc) '''')) - 3)
                        (split_nl (dict_get (doc_text long_csv_doc) '''')))
               @ ''...''
        = ''From exp1 - links.csv (Parameters: p):\<newline>h\<newline>1\<newline>2\<newline>3\<newline>4\<newline>...\<newline>9\<newline>10\<newline>11...''"
    by code_simp
  have "multi_label (dict_get (doc_experiment_name long_csv_doc) '''')
                 (dict_get (doc_filename long_csv_doc) ''unknown file'')
                 (dict_get (doc_experiment_params long_csv_doc) '''')
               @ join ''\<newline>''
                   (take 5 (split_nl (dict_get (doc_text long_csv_doc) '''')) @ [''...'']
                    @ drop (length (split_nl (dict_get (doc_text long_csv_doc) '''')) - 3)
                        (split_nl (dict_get (doc_text long_csv_doc) '''')))
               @ ''...''
          \<in> set (contexts (aggregate [long_csv_doc]))"
    using structural_excerpt_over_ten_lines [OF h1 h2] h3 h4 h5 by blast
  then have "''From exp1 - links.csv (Parameters: p):\<newline>h\<newline>1\<newline>2\<newline>3\<newline>4\<newline>...\<newline>9\<newline>10\<newline>11...''
       \<in> set (contexts (aggregate [long_csv_doc]))"
    by (simp only: e)
  then show ?thesis
    using h1 h2 h3 h4 h5 by blast
qed


section \<open>The multi-experiment flag\<close>

text \<open>
  Claim C5, at a pool of two documents with the experiment names \<open>A\<close> and \<open>B\<close>, the second
  with empty text: the pool has two distinct experiment names, \<open>fallback_parser\<close> computes
  the flag as true, and \<open>generate_response\<close>, which records an experiment name only inside
  \<open>if text:\<close>, computes it as false.
\<close>

theorem is_multi_experiment_empty_text:
  "card (experiment_names mixed_pool) = 2
   \<and> fallback_is_multi_experiment mixed_pool = True
   \<and> is_multi_experiment mixed_pool = False"
  by code_simp


section \<open>Dispatch in \<open>generate_response\<close>\<close>

lemma bandwidth_branch_calls:
  "\<not> list_ex is_backend_call (snd (bandwidth_branch E query run_dir))"
  by (simp add: bandwidth_branch_def split: option.splits sum.splits)

lemma retrieve_empty:
  assumes "get_all_multi_experiment_documents E = Inr []"
    and "get_all_single_experiment_documents E = Inr []"
  shows "retrieve E = (Inr None, [GetMultiDocs, GetSingleDocs])"
  using assms by (simp add: retrieve_def)

lemma generate_response_no_bandwidth:
  assumes "fst (bandwidth_branch E query run_dir) = None"
  shows "generate_response E query run_dir =
     (let calls = snd (bandwidth_branch E query run_dir) in
          if is_reasoning_query query
          then (let (answer, calls') = generate_response_with_reasoning E query
                in (answer, calls @ calls'))
          else (case retrieve E of
                  (Inl e, calls') \<Rightarrow>
                    (''I had trouble searching through the simulation data. Please try again or ask an administrator to check the vector search configuration.'',
                     calls @ calls')
                | (Inr None, calls') \<Rightarrow>
                    (''I couldn't find any simulation data to answer your question.'',
                     calls @ calls')
                | (Inr (Some context_docs), calls') \<Rightarrow>
                    (let (answer, calls'') = standard_response E query context_docs
                     in (answer, calls @ calls' @ calls''))))"
proof -
  obtain calls where "bandwidth_branch E query run_dir = (None, calls)"
    using assms by (cases "bandwidth_branch E query run_dir") simp
  then show ?thesis
    by (simp add: generate_response_def)
qed

lemma bandwidth_branch_returns:
  assumes "is_bandwidth_query query" and "run_dir = Some d" and "d \<noteq> []"
    and "analyze_bandwidth_for_chat E d query = Inr answer"
  shows "bandwidth_branch E query run_dir = (Some answer, [AnalyzeBandwidth d query])"
  using assms by (simp add: bandwidth_branch_def)

lemma bandwidth_branch_passes:
  assumes "\<not> is_bandwidth_query query \<or> run_dir = None \<or> run_dir = Some []
           \<or> (\<exists>d e. run_dir = Some d \<and> analyze_bandwidth_for_chat E d query = Inl e)"
  shows "fst (bandwidth_branch E query run_dir) = None"
  using assms by (auto simp: bandwidth_branch_def split: option.splits sum.splits)


section \<open>Empty retrieval\<close>

text \<open>
  Claim C6. When the run reaches retrieval (the bandwidth branch at the head of
  \<open>generate_response\<close> has not returned) and both the multi-experiment and the
  single-experiment retrieval return empty pools, the result is the fixed no-data message of
  the path taken, returned as a string: that of \<open>generate_response\<close>, or that of
  \<open>generate_response_with_reasoning\<close> for a reasoning query; and the run makes no call to a
  generation backend.
\<close>

theorem empty_retrieval_no_backend_call:
  assumes "get_all_multi_experiment_documents E = Inr []"
    and "get_all_single_experiment_documents E = Inr []"
    and "fst (bandwidth_branch E query run_dir) = None"
  shows "fst (generate_response E query run_dir)
           = (if is_reasoning_query query
              then ''I couldn't find any simulation data to reason about.''
              else ''I couldn't find any simulation data to answer your question.'')
         \<and> \<not> list_ex is_backend_call (snd (generate_response E query run_dir))"
proof -
  have r: "retrieve E = (Inr None, [GetMultiDocs, GetSingleDocs])"
    using assms(1,2) by (rule retrieve_empty)
  have b: "\<not> list_ex is_backend_call (snd (bandwidth_branch E query run_dir))"
    by (rule bandwidth_branch_calls)
  have g: "generate_response_with_reasoning E query
      = (''I couldn't find any simulation data to reason about.'', [GetMultiDocs, GetSingleDocs])"
    by (simp add: generate_response_with_reasoning_def r)
  show ?thesis
    using b by (simp add: generate_response_no_bandwidth [OF assms(3)] r g Let_def list_ex_iff)
qed

theorem empty_retrieval_no_backend_call_witness:
  "get_all_multi_experiment_documents example_env = Inr []
   \<and> get_all_single_experiment_documents example_env = Inr []
   \<and> fst (bandwidth_branch example_env ''What is the average bandwidth?'' None) = None
   \<and> fst (generate_response example_env ''What is the average bandwidth?'' None)
       = ''I couldn't find any simulation data to answer your question.''
   \<and> \<not> list_ex is_backend_call
         (snd (generate_response example_env ''What is the average bandwidth?'' None))"
proof -
  have h1: "get_all_multi_experiment_documents example_env = Inr []"
    by (simp add: example_env_def)
  have h2: "get_all_single_experiment_documents example_env = Inr []"
    by (simp add: example_env_def)
  have h3: "fst (bandwidth_branch example_env ''What is the average bandwidth?'' None) = None"
    by (simp add: bandwidth_branch_def)
  have h4: "\<not> is_reasoning_query ''What is the average bandwidth?''"
    by code_simp
  show ?thesis
    using empty_retrieval_no_backend_call [OF h1 h2 h3] h1 h2 h3 h4 by simp
qed


section \<open>Precedence of the bandwidth branch over the reasoning branch\<close>

text \<open>
  Claim C1, as stated, fails: the query \<open>Explain step by step the average bandwidth\<close>
  contains a reasoning phrase and satisfies the bandwidth criteria; with a run directory
  \<open>generate_response\<close> returns the answer of the bandwidth analysis, not the answer of the
  reasoning branch.
\<close>

theorem reasoning_first_counterexample:
  "py_in ''step by step'' (lower ''Explain step by step the average bandwidth'')
   \<and> is_reasoning_query ''Explain step by step the average bandwidth''
   \<and> is_bandwidth_query ''Explain step by step the average bandwidth''
   \<and> generate_response pool_env ''Explain step by step the average bandwidth'' (Some ''/runs/1'')
       = (''Average bandwidth: 20.00'',
          [AnalyzeBandwidth ''/runs/1'' ''Explain step by step the average bandwidth''])
   \<and> fst (generate_response_with_reasoning pool_env ''Explain step by step the average bandwidth'')
       = ''<thinking>\<newline>r\<newline></thinking>\<newline>\<newline>a''"
  by code_simp

text \<open>
  Claim C1, amended. The bandwidth branch is checked before the reasoning branch and the first
  match wins: a query that contains a reasoning phrase is answered by the bandwidth analysis
  when it also satisfies the bandwidth criteria, a non-empty run directory is given and the
  analysis returns; in every other case (the bandwidth criteria fail, no run directory is given,
  or the analysis raises) it takes the reasoning branch, whatever else it contains.
\<close>

theorem reasoning_after_bandwidth:
  assumes "phrase \<in> set reasoning_phrases"
    and "py_in phrase (lower query)"
  shows "(\<forall>d answer. is_bandwidth_query query \<and> run_dir = Some d \<and> d \<noteq> []
             \<and> analyze_bandwidth_for_chat E d query = Inr answer
           \<longrightarrow> fst (generate_response E query run_dir) = answer)
       \<and> (\<not> is_bandwidth_query query \<or> run_dir = None \<or> run_dir = Some []
             \<or> (\<exists>d e. run_dir = Some d \<and> analyze_bandwidth_for_chat E d query = Inl e)
           \<longrightarrow> fst (generate_response E query run_dir)
                = fst (generate_response_with_reasoning E query))"
proof (intro conjI allI impI)
  fix d answer
  assume "is_bandwidth_query query \<and> run_dir = Some d \<and> d \<noteq> []
             \<and> analyze_bandwidth_for_chat E d query = Inr answer"
  then have "bandwidth_branch E query run_dir = (Some answer, [AnalyzeBandwidth d query])"
    by (intro bandwidth_branch_returns) simp_all
  then show "fst (generate_response E query run_dir) = answer"
    by (simp add: generate_response_def)
next
  assume h: "\<not> is_bandwidth_query query \<or> run_dir = None \<or> run_dir = Some []
             \<or> (\<exists>d e. run_dir = Some d \<and> analyze_bandwidth_for_chat E d query = Inl e)"
  have r: "is_reasoning_query query"
    using assms by (auto simp: is_reasoning_query_def list_ex_iff)
  have "fst (bandwidth_branch E query run_dir) = None"
    using h by (rule bandwidth_branch_passes)
  then show "fst (generate_response E query run_dir)
                = fst (generate_response_with_reasoning E query)"
    using r by (simp add: generate_response_no_bandwidth Let_def split: prod.splits)
qed

theorem reasoning_after_bandwidth_witness:
  "''step by step'' \<in> set reasoning_phrases
   \<and> py_in ''step by step'' (lower ''Explain step by step the average bandwidth'')
   \<and> is_bandwidth_query ''Explain step by step the average bandwidth''
   \<and> analyze_bandwidth_for_chat pool_env ''/runs/1'' ''Explain step by step the average bandwidth''
       = Inr ''Average bandwidth: 20.00''
   \<and> fst (generate_response pool_env ''Explain step by step the average bandwidth''
            (Some ''/runs/1''))
       = ''Average bandwidth: 20.00''
   \<and> fst (generate_response pool_env ''Explain step by step the average bandwidth'' None)
       = fst (generate_response_with_reasoning pool_env
                ''Explain step by step the average bandwidth'')"
proof -
  have h1: "''step by step'' \<in> set reasoning_phrases"
    by (simp add: reasoning_phrases_def)
  have h2: "py_in ''step by step'' (lower ''Explain step by step the average bandwidth'')"
    by code_simp
  have h3: "is_bandwidth_query ''Explain step by step the average bandwidth''"
    by code_simp
  have h4: "analyze_bandwidth_for_chat pool_env ''/runs/1''
               ''Explain step by step the average bandwidth'' = Inr ''Average bandwidth: 20.00''"
    by (simp add: pool_env_def example_env_def)
  have a: "fst (generate_response pool_env ''Explain step by step the average bandwidth''
            (Some ''/runs/1'')) = ''Average bandwidth: 20.00''"
    using reasoning_after_bandwidth [OF h1 h2, of "Some ''/runs/1''" pool_env] h3 h4 by blast
  have b: "fst (generate_response pool_env ''Explain step by step the average bandwidth'' None)
       = fst (generate_response_with_reasoning pool_env
                ''Explain step by step the average bandwidth'')"
    using reasoning_after_bandwidth [OF h1 h2, of None pool_env] by blast
  show ?thesis
    using h1 h2 h3 h4 a b by blast
qed


section \<open>Re-running an experiment\<close>

lemma object_id_valid:
  assumes "valid_object_id simulation_id"
  shows "object_id simulation_id = Inr simulation_id"
  using assms by (simp add: object_id_def)

lemma update_one_ok:
  assumes "valid_object_id simulation_id" and "coll simulation_id = Some x"
    and "db_fault R op = None"
  shows "update_one R op coll simulation_id upd = Inr (coll(simulation_id \<mapsto> upd x))"
  using assms by (simp add: update_one_def object_id_valid)

lemma update_one_fault:
  assumes "valid_object_id simulation_id" and "db_fault R op = Some e"
  shows "update_one R op coll simulation_id upd = Inl e"
  using assms by (simp add: update_one_def object_id_valid)

lemma background_body_returns:
  assumes "valid_object_id simulation_id" and "coll simulation_id = Some x"
    and "db_fault R FindRecord = None" and "background_job R x = Inr ()"
    and "db_fault R WriteFinished = None"
  shows "background_body R coll simulation_id = Inr (coll(simulation_id \<mapsto> set_finished R x))"
  using assms
  by (simp add: background_body_def find_one_def object_id_valid update_one_ok)

lemma background_body_raises:
  assumes "valid_object_id simulation_id" and "coll simulation_id = Some x"
    and "body_raises R x e"
  shows "background_body R coll simulation_id = Inl (Caught e)"
  using assms
  by (auto simp: body_raises_def background_body_def find_one_def object_id_valid
      update_one_fault)

lemma background_body_exits:
  assumes "valid_object_id simulation_id" and "coll simulation_id = Some x"
    and "db_fault R FindRecord = None" and "background_job R x = Inl (Uncaught name)"
  shows "background_body R coll simulation_id = Inl (Uncaught name)"
  using assms
  by (simp add: background_body_def find_one_def object_id_valid)

text \<open>With well-formed parameters the outcome of the job's part is the outcome of the job.\<close>

lemma background_job_well_formed:
  assumes "exp_params x = Some params"
    and "split_char (CHR '','') params = [num_jobs, num_cores, ring_size, routing_str, seed]"
    and "routing_lookup R routing_str = Inr alg"
    and "py_int R seed = Inr s" and "py_int R num_cores = Inr c" and "py_int R ring_size = Inr r"
  shows "background_job R x = local_run_single_job R s c r ''BLOOM'' alg"
  using assms by (simp add: background_job_def)

text \<open>
  Claim C10, as stated, fails: the record can be left in state \<open>Re-Running\<close> after the
  background thread has ended. With a valid id and the record in the collection, a job that
  ends in \<open>SystemExit\<close> passes the handler \<open>except Exception\<close> by; and when the job raises
  and the handler's own write raises, nothing is written. In both runs the thread has
  ended and the state is \<open>Re-Running\<close>.
\<close>

theorem re_run_left_rerunning_counterexample:
  "valid_object_id example_id
   \<and> example_collection example_id = Some example_record
   \<and> outcome_at (re_run_completed exiting_run_env example_collection example_id) example_id
       = Inr (Some (example_record\<lparr>exp_state := Some ''Re-Running''\<rparr>), ThreadDied ''SystemExit'')
   \<and> outcome_at (re_run_completed failing_write_run_env example_collection example_id) example_id
       = Inr (Some (example_record\<lparr>exp_state := Some ''Re-Running''\<rparr>),
              ThreadDied ''ServerSelectionTimeoutError'')"
  by code_simp

text \<open>
  Claim C10, amended. For a valid id whose record is in the collection, \<open>re_run_experiment\<close>
  writes the state \<open>Re-Running\<close> before it starts the background thread; when that write
  raises, it raises and starts no thread. When the background thread ends, the state is
  \<open>Finished\<close> with \<open>end_time\<close> set if the body of the \<open>try\<close> returned (the record was read, the
  job returned, the write succeeded); it is \<open>Error\<close> with the message of the exception if
  the body raised an \<open>Exception\<close> and the handler's write succeeded. The record is left as it
  was, in state \<open>Re-Running\<close> after \<open>re_run_experiment\<close>, if the handler's write raises or if
  the job raises a \<open>BaseException\<close> that is not an \<open>Exception\<close>.
\<close>

theorem re_run_outcomes:
  assumes "valid_object_id simulation_id"
    and "coll simulation_id = Some x"
  shows "(db_fault R MarkReRunning = None
            \<longrightarrow> re_run_experiment R coll simulation_id
                 = Inr (coll(simulation_id \<mapsto> x\<lparr>exp_state := Some ''Re-Running''\<rparr>),
                        simulation_id)
               \<and> re_run_completed R coll simulation_id
                 = Inr (run_in_background R
                          (coll(simulation_id \<mapsto> x\<lparr>exp_state := Some ''Re-Running''\<rparr>))
                          simulation_id))
       \<and> (\<forall>e. db_fault R MarkReRunning = Some e
            \<longrightarrow> re_run_experiment R coll simulation_id = Inl e
               \<and> re_run_completed R coll simulation_id = Inl e)
       \<and> (db_fault R FindRecord = None \<and> background_job R x = Inr ()
            \<and> db_fault R WriteFinished = None
            \<longrightarrow> run_in_background R coll simulation_id
                 = (coll(simulation_id \<mapsto> x\<lparr>exp_state := Some ''Finished'',
                                            exp_end_time := Some (now_isoformat R)\<rparr>),
                    ThreadReturned))
       \<and> (\<forall>e. body_raises R x e \<and> db_fault R WriteError = None
            \<longrightarrow> run_in_background R coll simulation_id
                 = (coll(simulation_id \<mapsto> x\<lparr>exp_state := Some ''Error'',
                                            exp_error := Some (str_exn e)\<rparr>),
                    ThreadReturned))
       \<and> (\<forall>e e'. body_raises R x e \<and> db_fault R WriteError = Some e'
            \<longrightarrow> run_in_background R coll simulation_id = (coll, ThreadDied (str_exn e')))
       \<and> (\<forall>name. db_fault R FindRecord = None \<and> background_job R x = Inl (Uncaught name)
            \<longrightarrow> run_in_background R coll simulation_id = (coll, ThreadDied name))"
proof (intro conjI allI impI)
  {
    assume f: "db_fault R MarkReRunning = None"
    have u: "update_one R MarkReRunning coll simulation_id set_rerunning
               = Inr (coll(simulation_id \<mapsto> x\<lparr>exp_state := Some ''Re-Running''\<rparr>))"
      using update_one_ok [where coll = coll and simulation_id = simulation_id and x = x
          and R = R and op = MarkReRunning and upd = set_rerunning, OF assms f]
      by (simp only: set_rerunning_def)
    show "re_run_experiment R coll simulation_id
            = Inr (coll(simulation_id \<mapsto> x\<lparr>exp_state := Some ''Re-Running''\<rparr>), simulation_id)"
      by (simp add: re_run_experiment_def u)
    show "re_run_completed R coll simulation_id
            = Inr (run_in_background R
                     (coll(simulation_id \<mapsto> x\<lparr>exp_state := Some ''Re-Running''\<rparr>))
                     simulation_id)"
      by (simp add: re_run_completed_def re_run_experiment_def u)
  }
  {
    fix e
    assume f: "db_fault R MarkReRunning = Some e"
    have u: "update_one R MarkReRunning coll simulation_id set_rerunning = Inl e"
      using assms(1) f by (rule update_one_fault)
    show "re_run_experiment R coll simulation_id = Inl e"
      by (simp add: re_run_experiment_def u)
    show "re_run_completed R coll simulation_id = Inl e"
      by (simp add: re_run_completed_def re_run_experiment_def u)
  }
  {
    assume h: "db_fault R FindRecord = None \<and> background_job R x = Inr ()
            \<and> db_fault R WriteFinished = None"
    have "background_body R coll simulation_id
            = Inr (coll(simulation_id \<mapsto> set_finished R x))"
      by (rule background_body_returns [where coll = coll and simulation_id = simulation_id
            and x = x and R = R, OF assms conjunct1 [OF h] conjunct1 [OF conjunct2 [OF h]]
            conjunct2 [OF conjunct2 [OF h]]])
    then show "run_in_background R coll simulation_id
                 = (coll(simulation_id \<mapsto> x\<lparr>exp_state := Some ''Finished'',
                                            exp_end_time := Some (now_isoformat R)\<rparr>),
                    ThreadReturned)"
      by (simp add: run_in_background_def set_finished_def)
  }
  {
    fix e
    assume h: "body_raises R x e \<and> db_fault R WriteError = None"
    have b: "background_body R coll simulation_id = Inl (Caught e)"
      by (rule background_body_raises [where coll = coll and simulation_id = simulation_id
            and x = x and R = R and e = e, OF assms conjunct1 [OF h]])
    have "update_one R WriteError coll simulation_id (set_error e)
            = Inr (coll(simulation_id \<mapsto> set_error e x))"
      by (rule update_one_ok [where coll = coll and simulation_id = simulation_id and x = x
            and R = R and op = WriteError and upd = "set_error e", OF assms conjunct2 [OF h]])
    then show "run_in_background R coll simulation_id
                 = (coll(simulation_id \<mapsto> x\<lparr>exp_state := Some ''Error'',
                                            exp_error := Some (str_exn e)\<rparr>),
                    ThreadReturned)"
      by (simp add: run_in_background_def b set_error_def)
  }
  {
    fix e e'
    assume h: "body_raises R x e \<and> db_fault R WriteError = Some e'"
    have b: "background_body R coll simulation_id = Inl (Caught e)"
      by (rule background_body_raises [where coll = coll and simulation_id = simulation_id
            and x = x and R = R and e = e, OF assms conjunct1 [OF h]])
    have "update_one R WriteError coll simulation_id (set_error e) = Inl e'"
      by (rule update_one_fault [where simulation_id = simulation_id and R = R
            and op = WriteError and e = e', OF assms(1) conjunct2 [OF h]])
    then show "run_in_background R coll simulation_id = (coll, ThreadDied (str_exn e'))"
      by (simp add: run_in_background_def b)
  }
  {
    fix name
    assume h: "db_fault R FindRecord = None \<and> background_job R x = Inl (Uncaught name)"
    have "background_body R coll simulation_id = Inl (Uncaught name)"
      by (rule background_body_exits [where coll = coll and simulation_id = simulation_id
            and x = x and R = R and name = name, OF assms conjunct1 [OF h] conjunct2 [OF h]])
    then show "run_in_background R coll simulation_id = (coll, ThreadDied name)"
      by (simp add: run_in_background_def)
  }
qed

theorem re_run_outcomes_witness:
  "valid_object_id example_id
   \<and> example_collection example_id = Some example_record
   \<and> db_fault example_run_env MarkReRunning = None
   \<and> db_fault example_run_env FindRecord = None
   \<and> db_fault example_run_env WriteFinished = None
   \<and> background_job example_run_env (example_record\<lparr>exp_state := Some ''Re-Running''\<rparr>) = Inr ()
   \<and> outcome_at (re_run_completed example_run_env example_collection example_id) example_id
       = Inr (Some (example_record\<lparr>exp_state := Some ''Finished'',
                      exp_end_time := Some ''2024-01-02T09:30:00''\<rparr>),
              ThreadReturned)"
proof -
  let ?rr = "example_record\<lparr>exp_state := Some ''Re-Running''\<rparr>"
  let ?c1 = "example_collection(example_id \<mapsto> ?rr)"
  have h1: "valid_object_id example_id"
    by code_simp
  have h2: "example_collection example_id = Some example_record"
    by (simp add: example_collection_def)
  have f1: "db_fault example_run_env MarkReRunning = None"
    and f2: "db_fault example_run_env FindRecord = None"
    and f3: "db_fault example_run_env WriteFinished = None"
    by (simp_all add: example_run_env_def)
  have j: "background_job example_run_env ?rr = Inr ()"
    by code_simp
  have n: "now_isoformat example_run_env = ''2024-01-02T09:30:00''"
    by (simp add: example_run_env_def)
  have a: "re_run_completed example_run_env example_collection example_id
             = Inr (run_in_background example_run_env ?c1 example_id)"
    using re_run_outcomes [where coll = example_collection and simulation_id = example_id
        and x = example_record and R = example_run_env, OF h1 h2] f1
    by blast
  have h2': "?c1 example_id = Some ?rr"
    by simp
  have b: "run_in_background example_run_env ?c1 example_id
             = (?c1(example_id \<mapsto> ?rr\<lparr>exp_state := Some ''Finished'',
                                       exp_end_time := Some (now_isoformat example_run_env)\<rparr>),
                ThreadReturned)"
    using re_run_outcomes [where coll = ?c1 and simulation_id = example_id
        and x = ?rr and R = example_run_env, OF h1 h2'] f2 f3 j
    by blast
  have "outcome_at (re_run_completed example_run_env example_collection example_id) example_id
       = Inr (Some (example_record\<lparr>exp_state := Some ''Finished'',
                      exp_end_time := Some ''2024-01-02T09:30:00''\<rparr>),
              ThreadReturned)"
    by (simp add: outcome_at_def a b n)
  then show ?thesis
    using h1 h2 f1 f2 f3 j by blast
qed


section \<open>Facts about \<open>join\<close> and the loops of \<open>fallback_parser\<close>\<close>

lemma py_in_refl: "py_in s s"
  by (simp add: py_in_def)

lemma py_in_trans: "py_in a b \<Longrightarrow> py_in b c \<Longrightarrow> py_in a c"
  unfolding py_in_def by (rule sublist_order.order_trans)

lemma py_in_append_left: "py_in a c \<Longrightarrow> py_in a (b @ c)"
  unfolding py_in_def by (auto simp: sublist_def intro: append_assoc [symmetric])

lemma py_in_append_right:
  assumes "py_in a b"
  shows "py_in a (b @ c)"
proof -
  obtain ps ss where "b = ps @ a @ ss"
    using assms unfolding py_in_def sublist_def by blast
  then have "b @ c = ps @ a @ (ss @ c)"
    by simp
  then show ?thesis
    unfolding py_in_def sublist_def by blast
qed

lemma py_in_join:
  assumes "x \<in> set xs"
  shows "py_in x (join sep xs)"
  using assms
proof (induction sep xs rule: join.induct)
  case (1 sep)
  then show ?case by simp
next
  case (2 sep y)
  then show ?case by (simp add: py_in_refl)
next
  case (3 sep y z zs)
  show ?case
  proof (cases "x = y")
    case True
    then show ?thesis
      by (simp add: py_in_append_right py_in_refl)
  next
    case False
    then have "x \<in> set (z # zs)"
      using "3.prems" by simp
    then have "py_in x (join sep (z # zs))"
      by (rule "3.IH")
    then show ?thesis
      by (simp add: py_in_append_left)
  qed
qed

lemma first_return_Some:
  assumes "first_return f xs = Some r"
  shows "\<exists>x \<in> set xs. f x = Some r"
  using assms by (induction xs) (auto split: option.splits)

lemma first_return_None:
  "first_return f xs = None \<longleftrightarrow> (\<forall>x \<in> set xs. f x = None)"
  by (induction xs) (auto split: option.splits)

lemma first_return_first:
  assumes "\<forall>x \<in> set pre. f x = None" and "f x = Some r"
  shows "first_return f (pre @ x # post) = Some r"
  using assms by (induction pre) simp_all

lemma group_append_covers_new:
  "\<exists>(k', vs) \<in> set (group_append m k v). v \<in> set vs"
  by (induction m k v rule: group_append.induct) auto

lemma group_append_covers_old:
  assumes "\<exists>(k', vs) \<in> set m. w \<in> set vs"
  shows "\<exists>(k', vs) \<in> set (group_append m k v). w \<in> set vs"
  using assms by (induction m k v rule: group_append.induct) auto

lemma foldl_group_append_covers_old:
  assumes "\<exists>(k', vs) \<in> set m. w \<in> set vs"
  shows "\<exists>(k', vs) \<in> set (foldl (\<lambda>m doc. group_append m (kf doc) (vf doc)) m docs). w \<in> set vs"
  using assms
proof (induction docs arbitrary: m)
  case Nil
  then show ?case by simp
next
  case (Cons d docs)
  have "\<exists>(k', vs) \<in> set (group_append m (kf d) (vf d)). w \<in> set vs"
    using Cons.prems by (rule group_append_covers_old)
  then show ?case
    using Cons.IH by simp
qed

lemma foldl_group_append_covers:
  assumes "d \<in> set docs"
  shows "\<exists>(k', vs) \<in> set (foldl (\<lambda>m doc. group_append m (kf doc) (vf doc)) m docs).
           vf d \<in> set vs"
  using assms
proof (induction docs arbitrary: m)
  case Nil
  then show ?case by simp
next
  case (Cons a docs)
  show ?case
  proof (cases "d = a")
    case True
    have "\<exists>(k', vs) \<in> set (group_append m (kf a) (vf a)). vf a \<in> set vs"
      by (rule group_append_covers_new)
    then have "\<exists>(k', vs) \<in> set (foldl (\<lambda>m doc. group_append m (kf doc) (vf doc))
                                  (group_append m (kf a) (vf a)) docs). vf a \<in> set vs"
      by (rule foldl_group_append_covers_old)
    then show ?thesis
      using True by simp
  next
    case False
    then have "d \<in> set docs"
      using Cons.prems by simp
    then show ?thesis
      using Cons.IH by simp
  qed
qed

lemma experiment_files_covers:
  assumes "d \<in> set docs"
  shows "\<exists>(k, files) \<in> set (experiment_files docs). dict_get (doc_filename d) ''unknown'' \<in> set files"
  unfolding experiment_files_def
  using foldl_group_append_covers [OF assms,
      where kf = "\<lambda>doc. dict_get (doc_experiment_name doc) ''Unknown''"
        and vf = "\<lambda>doc. dict_get (doc_filename doc) ''unknown''" and m = "[]"]
  by simp

lemma general_fallback_not_empty: "general_fallback E docs \<noteq> []"
  by (simp add: general_fallback_def Let_def)

lemma general_fallback_names_file:
  assumes "d \<in> set docs"
  shows "py_in (dict_get (doc_filename d) ''unknown'') (general_fallback E docs)"
proof (cases "length (fallback_experiments_found docs) > 1")
  case True
  let ?f = "dict_get (doc_filename d) ''unknown''"
  let ?summary = "map (\<lambda>(exp_name, files). exp_name @ '': '' @ join '', '' files)
                    (experiment_files docs)"
  obtain k files where kf: "(k, files) \<in> set (experiment_files docs)" and f: "?f \<in> set files"
    using experiment_files_covers [OF assms] by blast
  have "py_in ?f (join '', '' files)"
    using f by (rule py_in_join)
  then have line: "py_in ?f (k @ '': '' @ join '', '' files)"
    by (intro py_in_append_left)
  have "k @ '': '' @ join '', '' files \<in> set ?summary"
    using kf by force
  then have "py_in (k @ '': '' @ join '', '' files) (join ''\<newline>'' ?summary)"
    by (rule py_in_join)
  then have "py_in ?f (join ''\<newline>'' ?summary)"
    using line by (rule py_in_trans [rotated])
  then have "py_in ?f (''I found relevant information from ''
                  @ str_nat (length (fallback_experiments_found docs))
                  @ '' experiments ('' @ join '', '' (set_iteration_order E (fallback_experiments_found docs))
                  @ '') in the following files:\<newline>'' @ join ''\<newline>'' ?summary
                  @ ''\<newline>\<newline>However, I couldn't process the comparative analysis automatically. The API service is currently unavailable.'')"
    by (intro py_in_append_left py_in_append_right)
  then show ?thesis
    using True by (simp only: general_fallback_def Let_def if_True)
next
  case False
  let ?f = "dict_get (doc_filename d) ''unknown''"
  let ?names = "map (\<lambda>doc. dict_get (doc_filename doc) ''unknown'') docs"
  have "?f \<in> set ?names"
    using assms by simp
  then have "py_in ?f (join '', '' ?names)"
    by (rule py_in_join)
  then have "py_in ?f (''I found relevant information in '' @ join '', '' ?names
                  @ '', but couldn't process it automatically. The API service is currently unavailable.'')"
    by (intro py_in_append_left py_in_append_right)
  then show ?thesis
    using False by (simp only: general_fallback_def Let_def if_False)
qed

lemma general_fallback_says_unprocessed:
  "py_in ''couldn't process'' (general_fallback E docs)"
proof (cases "length (fallback_experiments_found docs) > 1")
  case True
  have "py_in ''couldn't process''
     ''\<newline>\<newline>However, I couldn't process the comparative analysis automatically. The API service is currently unavailable.''"
    by code_simp
  then have "py_in ''couldn't process'' (''I found relevant information from ''
                  @ str_nat (length (fallback_experiments_found docs))
                  @ '' experiments ('' @ join '', '' (set_iteration_order E (fallback_experiments_found docs))
                  @ '') in the following files:\<newline>''
                  @ join ''\<newline>'' (map (\<lambda>(exp_name, files). exp_name @ '': '' @ join '', '' files)
                                    (experiment_files docs))
                  @ ''\<newline>\<newline>However, I couldn't process the comparative analysis automatically. The API service is currently unavailable.'')"
    by (intro py_in_append_left)
  then show ?thesis
    using True by (simp only: general_fallback_def Let_def if_True)
next
  case False
  have "py_in ''couldn't process''
     '', but couldn't process it automatically. The API service is currently unavailable.''"
    by code_simp
  then have "py_in ''couldn't process'' (''I found relevant information in ''
                  @ join '', '' (map (\<lambda>doc. dict_get (doc_filename doc) ''unknown'') docs)
                  @ '', but couldn't process it automatically. The API service is currently unavailable.'')"
    by (intro py_in_append_left)
  then show ?thesis
    using False by (simp only: general_fallback_def Let_def if_False)
qed

lemma node_count_doc_answer:
  assumes "node_count_doc E d = Some r"
  shows "r \<noteq> [] \<and> doc_filename d = Some ''node_info.csv'' \<and> py_in ''node_info.csv'' r"
proof -
  have f: "doc_filename d = Some ''node_info.csv''"
    using assms by (auto simp: node_count_doc_def split: if_splits)
  have p: "py_in ''node_info.csv'' ''Based on the node_info.csv file, there '' "
    by code_simp
  have "r = ''Based on the node_info.csv file, there '' @ drop 39 r"
    using assms
    by (auto simp: node_count_doc_def Let_def split: if_splits sum.splits)
  then have "r \<noteq> [] \<and> py_in ''node_info.csv'' r"
    using py_in_append_right [OF p, of "drop 39 r"] by auto
  then show ?thesis
    using f by simp
qed

lemma py_in_Nil_right: "py_in s [] \<longleftrightarrow> s = []"
  by (simp add: py_in_def)

lemma bandwidth_doc_answer:
  assumes "bandwidth_doc E d = Some r"
  shows "r \<noteq> [] \<and> (\<exists>f avg. doc_filename d = Some f \<and> py_in ''bandwidth'' (lower f)
           \<and> r = ''Based on '' @ f @ '', the average bandwidth is approximately '' @ avg @ ''.'')"
proof -
  have c: "py_in ''bandwidth'' (lower (dict_get (doc_filename d) ''''))"
    using assms by (auto simp: bandwidth_doc_def split: if_splits)
  then obtain f where f: "doc_filename d = Some f"
    by (cases "doc_filename d") (simp_all add: dict_get_def lower_def py_in_Nil_right)
  have "\<exists>avg. r = bandwidth_answer (doc_filename d) avg"
    using assms
    by (auto simp: bandwidth_doc_def Let_def split: if_splits sum.splits)
  then obtain avg where "r = ''Based on '' @ f @ '', the average bandwidth is approximately '' @ avg @ ''.''"
    using f by (auto simp: bandwidth_answer_def dict_get_def)
  then show ?thesis
    using f c by (auto simp: dict_get_def)
qed

lemma fallback_parser_cases:
  "fallback_parser E query docs = general_fallback E docs
   \<or> (node_intent (lower query) \<and> (\<exists>d \<in> set docs. node_count_doc E d = Some (fallback_parser E query docs)))
   \<or> (\<not> node_intent (lower query) \<and> bandwidth_intent (lower query)
       \<and> (\<exists>d \<in> set docs. bandwidth_doc E d = Some (fallback_parser E query docs)))"
proof (cases "node_intent (lower query)")
  case True
  show ?thesis
  proof (cases "first_return (node_count_doc E) docs")
    case None
    then show ?thesis
      using True by (simp add: fallback_parser_def Let_def)
  next
    case (Some r)
    then have "fallback_parser E query docs = r"
      using True by (simp add: fallback_parser_def Let_def)
    then show ?thesis
      using first_return_Some [OF Some] True by auto
  qed
next
  case False
  show ?thesis
  proof (cases "bandwidth_intent (lower query)")
    case b: True
    show ?thesis
    proof (cases "first_return (bandwidth_doc E) docs")
      case None
      then show ?thesis
        using False b by (simp add: fallback_parser_def Let_def)
    next
      case (Some r)
      then have "fallback_parser E query docs = r"
        using False b by (simp add: fallback_parser_def Let_def)
      then show ?thesis
        using first_return_Some [OF Some] False b by auto
    qed
  next
    case b: False
    then show ?thesis
      using False by (simp add: fallback_parser_def Let_def)
  qed
qed


section \<open>The fallback extractor always answers\<close>

text \<open>
  Claim C9. For every query and every pool \<open>fallback_parser\<close> returns a string, and the
  string is not empty. When no specialised handler answers (the query has neither intent, or no
  document of the pool makes the handler of its intent return) the result is the general
  summary, which says that the data could not be processed. When the pool is not empty the
  result contains the file name of a document of the pool (\<open>unknown\<close> for a document
  without the key).
\<close>

theorem fallback_parser_always_answers:
  "fallback_parser E query docs \<noteq> []
   \<and> (\<not> node_intent (lower query) \<and> \<not> bandwidth_intent (lower query)
        \<longrightarrow> fallback_parser E query docs = general_fallback E docs)
   \<and> ((\<forall>d \<in> set docs. node_count_doc E d = None \<and> bandwidth_doc E d = None)
        \<longrightarrow> fallback_parser E query docs = general_fallback E docs)
   \<and> py_in ''couldn't process'' (general_fallback E docs)
   \<and> (docs \<noteq> []
        \<longrightarrow> (\<exists>d \<in> set docs.
               py_in (dict_get (doc_filename d) ''unknown'') (fallback_parser E query docs)))"
proof (intro conjI impI)
  show "fallback_parser E query docs \<noteq> []"
    using fallback_parser_cases [of E query docs] general_fallback_not_empty [of E docs]
      node_count_doc_answer bandwidth_doc_answer
    by metis
  show "fallback_parser E query docs = general_fallback E docs"
    if "\<not> node_intent (lower query) \<and> \<not> bandwidth_intent (lower query)"
    using that by (simp add: fallback_parser_def Let_def)
  show "fallback_parser E query docs = general_fallback E docs"
    if "\<forall>d \<in> set docs. node_count_doc E d = None \<and> bandwidth_doc E d = None"
    using that fallback_parser_cases [of E query docs] by auto
  show "py_in ''couldn't process'' (general_fallback E docs)"
    by (rule general_fallback_says_unprocessed)
  show "\<exists>d \<in> set docs. py_in (dict_get (doc_filename d) ''unknown'') (fallback_parser E query docs)"
    if ne: "docs \<noteq> []"
  proof -
    consider (general) "fallback_parser E query docs = general_fallback E docs"
      | (node) d where "d \<in> set docs" "node_count_doc E d = Some (fallback_parser E query docs)"
      | (bandwidth) d where "d \<in> set docs" "bandwidth_doc E d = Some (fallback_parser E query docs)"
      using fallback_parser_cases [of E query docs] by blast
    then show ?thesis
    proof cases
      case general
      obtain d where d: "d \<in> set docs"
        using ne by (cases docs) auto
      have "py_in (dict_get (doc_filename d) ''unknown'') (general_fallback E docs)"
        using d by (rule general_fallback_names_file)
      then show ?thesis
        using d general by auto
    next
      case node
      have "doc_filename d = Some ''node_info.csv''
            \<and> py_in ''node_info.csv'' (fallback_parser E query docs)"
        using node_count_doc_answer [OF node(2)] by simp
      then have "py_in (dict_get (doc_filename d) ''unknown'') (fallback_parser E query docs)"
        by (simp add: dict_get_def)
      then show ?thesis
        using node(1) by auto
    next
      case bandwidth
      obtain f avg where f: "doc_filename d = Some f"
        and r: "fallback_parser E query docs
                  = ''Based on '' @ f @ '', the average bandwidth is approximately '' @ avg @ ''.''"
        using bandwidth_doc_answer [OF bandwidth(2)] by blast
      have "py_in f (''Based on '' @ f @ '', the average bandwidth is approximately '' @ avg @ ''.'')"
        by (intro py_in_append_left py_in_append_right py_in_refl)
      then have "py_in (dict_get (doc_filename d) ''unknown'') (fallback_parser E query docs)"
        using f r by (simp add: dict_get_def)
      then show ?thesis
        using bandwidth(1) by auto
    qed
  qed
qed

theorem fallback_parser_always_answers_witness:
  "\<not> node_intent (lower ''Which run was fastest?'')
   \<and> \<not> bandwidth_intent (lower ''Which run was fastest?'')
   \<and> mixed_pool \<noteq> []
   \<and> fallback_parser example_env ''Which run was fastest?'' mixed_pool
       = general_fallback example_env mixed_pool
   \<and> fallback_parser example_env ''Which run was fastest?'' mixed_pool \<noteq> []
   \<and> (\<exists>d \<in> set mixed_pool.
         py_in (dict_get (doc_filename d) ''unknown'')
           (fallback_parser example_env ''Which run was fastest?'' mixed_pool))"
proof -
  have h1: "\<not> node_intent (lower ''Which run was fastest?'')"
    by code_simp
  have h2: "\<not> bandwidth_intent (lower ''Which run was fastest?'')"
    by code_simp
  have h3: "mixed_pool \<noteq> []"
    by (simp add: mixed_pool_def)
  show ?thesis
    using fallback_parser_always_answers [of example_env "''Which run was fastest?''" mixed_pool]
      h1 h2 h3
    by blast
qed


section \<open>The node-count handler\<close>

lemma node_count_doc_skips:
  assumes "\<not> (doc_filename d = Some ''node_info.csv'' \<and> dict_get (doc_text d) '''' \<noteq> [])"
  shows "node_count_doc E d = None"
  using assms by (auto simp: node_count_doc_def Let_def)

lemma fallback_parser_node:
  assumes "node_intent (lower query)"
  shows "fallback_parser E query docs
           = (case first_return (node_count_doc E) docs of
                Some answer \<Rightarrow> answer
              | None \<Rightarrow> general_fallback E docs)"
  using assms by (simp add: fallback_parser_def Let_def)

text \<open>
  Claim C8, as stated, fails in its last part: for the text of three lines \<open>a\<close>, the empty
  line, and \<open>b,c\<close>, which pandas does not parse, the answer counts 3 lines, although the text
  has 2 non-empty lines.
\<close>

theorem node_count_lines_counterexample:
  "node_intent (lower ''How many nodes are there?'')
   \<and> doc_filename ragged_node_doc = Some ''node_info.csv''
   \<and> doc_text ragged_node_doc = Some ''a\<newline>\<newline>b,c''
   \<and> pandas_nunique_first_column example_env ''a\<newline>\<newline>b,c'' = Inl (Exception ''ParserError'')
   \<and> count_nonempty_lines ''a\<newline>\<newline>b,c'' = 2
   \<and> fallback_parser example_env ''How many nodes are there?'' [ragged_node_doc]
       = ''Based on the node_info.csv file, there appear to be approximately 3 nodes in the simulation.''"
  by code_simp

text \<open>
  Claim C8, amended. For a query that contains \<open>node\<close> together with \<open>count\<close> or
  \<open>how many\<close>, the first document of the pool that is named exactly \<open>node_info.csv\<close> and has
  non-empty text decides the answer: when pandas parses the text, the answer gives the number
  of distinct values pandas finds in the first column; when the parse raises, the answer
  gives, marked as approximate, the number of lines of the stripped text, the blank lines
  inside it included. Without such a document the result is the general summary.
\<close>

theorem node_count_fallback:
  assumes "node_intent (lower query)"
    and "\<forall>d \<in> set pre. \<not> (doc_filename d = Some ''node_info.csv''
                           \<and> dict_get (doc_text d) '''' \<noteq> [])"
    and "doc_filename doc = Some ''node_info.csv''"
    and "dict_get (doc_text doc) '''' \<noteq> []"
  shows "(\<forall>n. pandas_nunique_first_column E (dict_get (doc_text doc) '''') = Inr n
            \<longrightarrow> fallback_parser E query (pre @ doc # post)
                 = ''Based on the node_info.csv file, there are '' @ str_nat n
                   @ '' unique nodes in the simulation.'')
       \<and> (\<forall>e. pandas_nunique_first_column E (dict_get (doc_text doc) '''') = Inl e
            \<longrightarrow> fallback_parser E query (pre @ doc # post)
                 = ''Based on the node_info.csv file, there appear to be approximately ''
                   @ str_nat (length (split_nl (strip (dict_get (doc_text doc) ''''))))
                   @ '' nodes in the simulation.'')
       \<and> fallback_parser E query pre = general_fallback E pre"
proof (intro conjI allI impI)
  have skip: "\<forall>d \<in> set pre. node_count_doc E d = None"
    using assms(2) node_count_doc_skips by blast
  {
    fix n
    assume p: "pandas_nunique_first_column E (dict_get (doc_text doc) '''') = Inr n"
    have "node_count_doc E doc
            = Some (''Based on the node_info.csv file, there are '' @ str_nat n
                    @ '' unique nodes in the simulation.'')"
      using assms(3,4) p by (simp add: node_count_doc_def Let_def)
    then have "first_return (node_count_doc E) (pre @ doc # post)
            = Some (''Based on the node_info.csv file, there are '' @ str_nat n
                    @ '' unique nodes in the simulation.'')"
      using skip by (intro first_return_first) simp_all
    then show "fallback_parser E query (pre @ doc # post)
                 = ''Based on the node_info.csv file, there are '' @ str_nat n
                   @ '' unique nodes in the simulation.''"
      by (simp add: fallback_parser_node [OF assms(1)])
  }
  {
    fix e
    assume p: "pandas_nunique_first_column E (dict_get (doc_text doc) '''') = Inl e"
    have "node_count_doc E doc
            = Some (''Based on the node_info.csv file, there appear to be approximately ''
                   @ str_nat (length (split_nl (strip (dict_get (doc_text doc) ''''))))
                   @ '' nodes in the simulation.'')"
      using assms(3,4) p by (simp add: node_count_doc_def Let_def)
    then have "first_return (node_count_doc E) (pre @ doc # post)
            = Some (''Based on the node_info.csv file, there appear to be approximately ''
                   @ str_nat (length (split_nl (strip (dict_get (doc_text doc) ''''))))
                   @ '' nodes in the simulation.'')"
      using skip by (intro first_return_first) simp_all
    then show "fallback_parser E query (pre @ doc # post)
                 = ''Based on the node_info.csv file, there appear to be approximately ''
                   @ str_nat (length (split_nl (strip (dict_get (doc_text doc) ''''))))
                   @ '' nodes in the simulation.''"
      by (simp add: fallback_parser_node [OF assms(1)])
  }
  have "first_return (node_count_doc E) pre = None"
    using skip by (simp add: first_return_None)
  then show "fallback_parser E query pre = general_fallback E pre"
    by (simp add: fallback_parser_node [OF assms(1)])
qed

theorem node_count_fallback_witness:
  "node_intent (lower ''How many nodes are there?'')
   \<and> doc_filename bandwidth_table_doc = Some ''flow_bandwidth.csv''
   \<and> doc_filename node_table_doc = Some ''node_info.csv''
   \<and> dict_get (doc_text node_table_doc) '''' \<noteq> []
   \<and> pandas_nunique_first_column example_env (dict_get (doc_text node_table_doc) '''') = Inr 3
   \<and> fallback_parser example_env ''How many nodes are there?''
         ([bandwidth_table_doc] @ node_table_doc # [])
       = ''Based on the node_info.csv file, there are '' @ str_nat 3
         @ '' unique nodes in the simulation.''"
proof -
  have h1: "node_intent (lower ''How many nodes are there?'')"
    by code_simp
  have h2: "\<forall>d \<in> set [bandwidth_table_doc]. \<not> (doc_filename d = Some ''node_info.csv''
                           \<and> dict_get (doc_text d) '''' \<noteq> [])"
    by (simp add: bandwidth_table_doc_def)
  have h3: "doc_filename node_table_doc = Some ''node_info.csv''"
    by (simp add: node_table_doc_def)
  have h4: "dict_get (doc_text node_table_doc) '''' \<noteq> []"
    by (simp add: node_table_doc_def dict_get_def)
  have h5: "pandas_nunique_first_column example_env (dict_get (doc_text node_table_doc) '''')
              = Inr 3"
    by (simp add: node_table_doc_def dict_get_def example_env_def)
  have h0: "doc_filename bandwidth_table_doc = Some ''flow_bandwidth.csv''"
    by (simp add: bandwidth_table_doc_def)
  show ?thesis
    using node_count_fallback [OF h1 h2 h3 h4, of example_env "[]"] h0 h1 h3 h4 h5
    by blast
qed


section \<open>The average-bandwidth handler\<close>


text \<open>The list comprehension keeps the values above zero, and raises when a conversion raises.\<close>

lemma positive_values_filter:
  assumes "\<forall>num \<in> set numbers. \<exists>x. float_of_str E num = Inr x"
  shows "positive_values E numbers
           = Inr (filter (float_gt_zero E) (map (\<lambda>num. projr (float_of_str E num)) numbers))"
  using assms by (induction numbers) auto

lemma positive_values_raises:
  assumes "\<exists>num \<in> set numbers. \<exists>e. float_of_str E num = Inl e"
  shows "\<exists>e. positive_values E numbers = Inl e"
  using assms
proof (induction numbers)
  case Nil
  then show ?case by simp
next
  case (Cons a numbers)
  show ?case
  proof (cases "float_of_str E a")
    case (Inl e)
    then show ?thesis by simp
  next
    case (Inr x)
    then have "\<exists>num \<in> set numbers. \<exists>e. float_of_str E num = Inl e"
      using Cons.prems by auto
    then obtain e where "positive_values E numbers = Inl e"
      using Cons.IH by blast
    then show ?thesis
      using Inr by simp
  qed
qed




text \<open>
  An example of the second path, in the example environment: pandas does not parse the text;
  its runs of digits are 10, 20 and 0, of which 10 and 20 are above zero.
\<close>

lemma bandwidth_regex_example:
  "findall_numbers ''rate 10 and 20 then 0'' = [''10'', ''20'', ''0'']
   \<and> fallback_parser example_env ''average bandwidth''
         [bandwidth_table_doc\<lparr>doc_text := Some ''rate 10 and 20 then 0''\<rparr>]
       = ''Based on flow_bandwidth.csv, the average bandwidth is approximately 15.00.''"
  by code_simp


section \<open>The sources block\<close>

lemma filenames_aggregate_step:
  "filenames (aggregate_step n st doc)
     = filenames st @ (if dict_get (doc_text doc) '''' \<noteq> []
                       then [dict_get (doc_filename doc) ''unknown file''] else [])"
  by (simp add: aggregate_step_def Let_def)

lemma filenames_foldl_aggregate_step:
  "filenames (foldl (aggregate_step n) st docs)
     = filenames st @ concat (map (\<lambda>doc. if dict_get (doc_text doc) '''' \<noteq> []
                                          then [dict_get (doc_filename doc) ''unknown file'']
                                          else []) docs)"
  by (induction docs arbitrary: st) (simp_all add: filenames_aggregate_step)

lemma filenames_aggregate_member:
  assumes "doc \<in> set docs" and "dict_get (doc_text doc) '''' \<noteq> []"
  shows "dict_get (doc_filename doc) ''unknown file'' \<in> set (filenames (aggregate docs))"
  using assms by (auto simp: aggregate_def filenames_foldl_aggregate_step agg_init_def)

lemma standard_response_eq:
  "fst (standard_response E query docs)
     = with_sources
         (if use_local E then generate_with_ollama E (standard_prompt E query docs)
          else generate_with_api E (standard_prompt E query docs) docs query)
         (standard_sources_info E docs)"
  by (simp add: standard_response_def standard_prompt_def standard_sources_info_def
      is_multi_experiment_def Let_def)

lemma multi_sources_info_lists:
  assumes "doc \<in> set docs"
  shows "py_in (''- '' @ dict_get (doc_experiment_name doc) ''Unknown'' @ ''/''
                 @ dict_get (doc_filename doc) ''unknown'')
           (multi_sources_info E docs found)"
proof -
  let ?line = "\<lambda>doc. ''- '' @ dict_get (doc_experiment_name doc) ''Unknown'' @ ''/''
                     @ dict_get (doc_filename doc) ''unknown''"
  have "?line doc \<in> set (map ?line docs)"
    using assms by simp
  then have "py_in (?line doc) (join ''\<newline>'' (map ?line docs))"
    by (rule py_in_join)
  then have "py_in (?line doc) (multi_context_summary docs)"
    by (simp only: multi_context_summary_def)
  then have "py_in (?line doc)
     (''\<newline>Retrieved ALL '' @ str_nat (length docs) @ '' documents from ''
     @ str_nat (length found) @ '' experiments ('' @ join '', '' (set_iteration_order E found)
     @ ''):\<newline>'' @ multi_context_summary docs @ ''\<newline>'')"
    by (intro py_in_append_left py_in_append_right)
  then show ?thesis
    by (simp only: multi_sources_info_def)
qed

lemma single_sources_info_lists:
  assumes "fname \<in> set fnames"
  shows "py_in (''- '' @ fname) (single_sources_info docs fnames)"
proof -
  have "''- '' @ fname \<in> set (map (\<lambda>filename. ''- '' @ filename) fnames)"
    using assms by simp
  then have "py_in (''- '' @ fname) (join ''\<newline>'' (map (\<lambda>filename. ''- '' @ filename) fnames))"
    by (rule py_in_join)
  then have "py_in (''- '' @ fname) (single_context_summary fnames)"
    by (simp only: single_context_summary_def)
  then have "py_in (''- '' @ fname)
     (''\<newline>Retrieved ALL '' @ str_nat (length docs)
     @ '' documents from single experiment:\<newline>'' @ single_context_summary fnames
     @ ''\<newline>\<newline>Used context:\<newline>'' @ context_preview docs @ ''\<newline>'')"
    by (intro py_in_append_left py_in_append_right)
  then show ?thesis
    by (simp only: single_sources_info_def)
qed

text \<open>
  Claim C2, as stated, fails on the reasoning path: with a pool of one document, the answer to
  a reasoning query is the thinking block followed by the result, and holds no sources block.
\<close>

theorem sources_block_counterexample:
  "get_all_multi_experiment_documents pool_env = Inr []
   \<and> get_all_single_experiment_documents pool_env = Inr [bandwidth_table_doc]
   \<and> is_reasoning_query ''Explain your thinking''
   \<and> fst (generate_response pool_env ''Explain your thinking'' None)
       = ''<thinking>\<newline>r\<newline></thinking>\<newline>\<newline>a''
   \<and> \<not> py_in ''<sources>'' (fst (generate_response pool_env ''Explain your thinking'' None))"
  by code_simp

text \<open>
  Claim C2, amended. For every non-empty pool and every query answered on the standard path
  of \<open>generate_response\<close> (no reasoning phrase, the bandwidth branch has not returned), the
  answer is the text of the generation wrapper followed by a \<open><sources>\<close> segment. The
  wrapper's text is the generated text or, when the backend call fails, the wrapper's own
  fallback text, so the segment is there on success and on failure alike. In multi-experiment
  mode the segment lists every document of the pool as experiment name and file name; otherwise
  it lists the file name of every document with non-empty text. (The reasoning path returns
  the thinking block and the result, without a sources segment.)
\<close>

theorem sources_block_on_standard_path:
  assumes "fst (bandwidth_branch E query run_dir) = None"
    and "\<not> is_reasoning_query query"
    and "fst (retrieve E) = Inr (Some context_docs)"
  shows "fst (generate_response E query run_dir)
           = (if use_local E then generate_with_ollama E (standard_prompt E query context_docs)
              else generate_with_api E (standard_prompt E query context_docs) context_docs query)
             @ ''\<newline>\<newline><sources>\<newline>'' @ standard_sources_info E context_docs @ ''\<newline></sources>''
       \<and> (\<forall>doc \<in> set context_docs. is_multi_experiment context_docs
            \<longrightarrow> py_in (''- '' @ dict_get (doc_experiment_name doc) ''Unknown'' @ ''/''
                         @ dict_get (doc_filename doc) ''unknown'')
                  (standard_sources_info E context_docs))
       \<and> (\<forall>doc \<in> set context_docs.
            \<not> is_multi_experiment context_docs \<and> dict_get (doc_text doc) '''' \<noteq> []
            \<longrightarrow> py_in (''- '' @ dict_get (doc_filename doc) ''unknown file'')
                  (standard_sources_info E context_docs))"
proof (intro conjI ballI impI)
  obtain calls where r: "retrieve E = (Inr (Some context_docs), calls)"
    using assms(3) by (cases "retrieve E") simp
  have "fst (generate_response E query run_dir) = fst (standard_response E query context_docs)"
    using assms(2) r
    by (simp add: generate_response_no_bandwidth [OF assms(1)] Let_def split: prod.splits)
  then show "fst (generate_response E query run_dir)
           = (if use_local E then generate_with_ollama E (standard_prompt E query context_docs)
              else generate_with_api E (standard_prompt E query context_docs) context_docs query)
             @ ''\<newline>\<newline><sources>\<newline>'' @ standard_sources_info E context_docs @ ''\<newline></sources>''"
    by (simp only: standard_response_eq with_sources_def)
next
  fix doc
  assume d: "doc \<in> set context_docs" and m: "is_multi_experiment context_docs"
  show "py_in (''- '' @ dict_get (doc_experiment_name doc) ''Unknown'' @ ''/''
                 @ dict_get (doc_filename doc) ''unknown'')
          (standard_sources_info E context_docs)"
    using multi_sources_info_lists [OF d] m by (simp only: standard_sources_info_def if_True)
next
  fix doc
  assume d: "doc \<in> set context_docs"
    and m: "\<not> is_multi_experiment context_docs \<and> dict_get (doc_text doc) '''' \<noteq> []"
  have "dict_get (doc_filename doc) ''unknown file'' \<in> set (filenames (aggregate context_docs))"
    using d m by (intro filenames_aggregate_member) simp_all
  then have "py_in (''- '' @ dict_get (doc_filename doc) ''unknown file'')
          (single_sources_info context_docs (filenames (aggregate context_docs)))"
    by (rule single_sources_info_lists)
  then show "py_in (''- '' @ dict_get (doc_filename doc) ''unknown file'')
          (standard_sources_info E context_docs)"
    using m by (simp only: standard_sources_info_def if_False)
qed

theorem sources_block_on_standard_path_witness:
  "fst (bandwidth_branch pool_env ''What is the average bandwidth?'' None) = None
   \<and> \<not> is_reasoning_query ''What is the average bandwidth?''
   \<and> fst (retrieve pool_env) = Inr (Some [bandwidth_table_doc])
   \<and> text_generation pool_env (standard_prompt pool_env ''What is the average bandwidth?''
         [bandwidth_table_doc]) = Inl (Exception ''service unavailable'')
   \<and> fst (generate_response pool_env ''What is the average bandwidth?'' None)
       = ''Based on flow_bandwidth.csv, the average bandwidth is approximately 20.00.\<newline>\<newline><sources>\<newline>\<newline>Retrieved ALL 1 documents from single experiment:\<newline>- flow_bandwidth.csv\<newline>\<newline>Used context:\<newline>0,10\<newline>1,20\<newline>2,30...\<newline>\<newline></sources>''"
proof -
  have h1: "fst (bandwidth_branch pool_env ''What is the average bandwidth?'' None) = None"
    by (simp add: bandwidth_branch_def)
  have h2: "\<not> is_reasoning_query ''What is the average bandwidth?''"
    by code_simp
  have h3: "fst (retrieve pool_env) = Inr (Some [bandwidth_table_doc])"
    by (simp add: retrieve_def pool_env_def example_env_def)
  have h4: "text_generation pool_env (standard_prompt pool_env ''What is the average bandwidth?''
         [bandwidth_table_doc]) = Inl (Exception ''service unavailable'')"
    by (simp add: pool_env_def example_env_def)
  have e: "(if use_local pool_env
            then generate_with_ollama pool_env
                   (standard_prompt pool_env ''What is the average bandwidth?'' [bandwidth_table_doc])
            else generate_with_api pool_env
                   (standard_prompt pool_env ''What is the average bandwidth?'' [bandwidth_table_doc])
                   [bandwidth_table_doc] ''What is the average bandwidth?'')
           @ ''\<newline>\<newline><sources>\<newline>'' @ standard_sources_info pool_env [bandwidth_table_doc] @ ''\<newline></sources>''
       = ''Based on flow_bandwidth.csv, the average bandwidth is approximately 20.00.\<newline>\<newline><sources>\<newline>\<newline>Retrieved ALL 1 documents from single experiment:\<newline>- flow_bandwidth.csv\<newline>\<newline>Used context:\<newline>0,10\<newline>1,20\<newline>2,30...\<newline>\<newline></sources>''"
    by code_simp
  have "fst (generate_response pool_env ''What is the average bandwidth?'' None)
       = ''Based on flow_bandwidth.csv, the average bandwidth is approximately 20.00.\<newline>\<newline><sources>\<newline>\<newline>Retrieved ALL 1 documents from single experiment:\<newline>- flow_bandwidth.csv\<newline>\<newline>Used context:\<newline>0,10\<newline>1,20\<newline>2,30...\<newline>\<newline></sources>''"
    using sources_block_on_standard_path [OF h1 h2 h3] e by simp
  then show ?thesis
    using h1 h2 h3 h4 by blast
qed

end
